theory Spec2Isabelle
  imports Main "HOL-Library.AList"
begin

section \<open>Python values and the library functions the code relies on\<close>

text \<open>
  Every value that reaches the functions below was decoded from JSON (an alert payload, a
  policy's JSON columns, a backend response, a queue message), so values are JSON trees.
  A Python dict is an association list in insertion order; its keys are strings. Floats are
  not modelled. Strings are lists of 8-bit characters.
\<close>

datatype json =
    JNull
  | JBool bool
  | JInt int
  | JStr string
  | JList "json list"
  | JObj "(string \<times> json) list"

text \<open>
  An exception is a value carrying its message, \<open>str(e)\<close>. The three classes that an
  \<open>except\<close> clause of the code names are kept apart; \<open>Exn\<close> stands for every other
  subclass of \<open>Exception\<close>.
\<close>

datatype exn = Exn string | JSONDecodeError string | KeyError string | IndexError string

fun exn_str :: "exn \<Rightarrow> string" where
  "exn_str (Exn m) = m"
| "exn_str (JSONDecodeError m) = m"
| "exn_str (KeyError m) = m"
| "exn_str (IndexError m) = m"

text \<open>Python truthiness (\<open>if x\<close>, \<open>not x\<close>, \<open>x or y\<close>).\<close>

fun truthy :: "json \<Rightarrow> bool" where
  "truthy JNull = False"
| "truthy (JBool b) = b"
| "truthy (JInt i) = (i \<noteq> 0)"
| "truthy (JStr s) = (s \<noteq> [])"
| "truthy (JList xs) = (xs \<noteq> [])"
| "truthy (JObj d) = (d \<noteq> [])"

text \<open>\<open>d.get(k)\<close> and \<open>d.get(k, default)\<close> for a string key.\<close>

definition dict_get :: "(string \<times> json) list \<Rightarrow> string \<Rightarrow> json" where
  "dict_get d k = (case map_of d k of None \<Rightarrow> JNull | Some v \<Rightarrow> v)"

definition dict_get_default :: "(string \<times> json) list \<Rightarrow> string \<Rightarrow> json \<Rightarrow> json" where
  "dict_get_default d k dflt = (case map_of d k of None \<Rightarrow> dflt | Some v \<Rightarrow> v)"

text \<open>\<open>s.startswith(p)\<close> and the substring test \<open>sub in s\<close>.\<close>

definition starts_with :: "string \<Rightarrow> string \<Rightarrow> bool" where
  "starts_with p s = (take (length p) s = p)"

fun py_in :: "string \<Rightarrow> string \<Rightarrow> bool" where
  "py_in sub [] = (sub = [])"
| "py_in sub (c # cs) = (starts_with sub (c # cs) \<or> py_in sub cs)"

text \<open>\<open>s.lower()\<close> on the ASCII letters.\<close>

definition lower_char :: "char \<Rightarrow> char" where
  "lower_char c =
     (case map_of (zip ''ABCDEFGHIJKLMNOPQRSTUVWXYZ'' ''abcdefghijklmnopqrstuvwxyz'') c of
        None \<Rightarrow> c
      | Some l \<Rightarrow> l)"

definition py_lower :: "string \<Rightarrow> string" where
  "py_lower s = map lower_char s"

text \<open>
  \<open>str(x)\<close>: a string is itself; for any other value it is the value's \<open>repr\<close>, a
  built-in of the interpreter that is taken as the parameter \<open>rp\<close>.
\<close>

definition py_str :: "(json \<Rightarrow> string) \<Rightarrow> json \<Rightarrow> string" where
  "py_str rp v = (case v of JStr s \<Rightarrow> s | _ \<Rightarrow> rp v)"

text \<open>
  \<open>a == b\<close> on decoded JSON: a bool compares equal to the integer 0 or 1, lists compare
  element by element, dicts compare as sets of key/value pairs whatever their order.
\<close>

lemma map_of_size_less:
  "map_of d k = Some w \<Longrightarrow> size w < Suc (size_list (size_prod (\<lambda>_. 0) size) d)"
  by (induction d) (auto split: if_splits)

lemma list_elem_size_less:
  "z \<in> set xs \<Longrightarrow> size z < Suc (size_list size xs)"
  by (induction xs) auto

lemma dict_value_size_less:
  "(k, v) \<in> set d \<Longrightarrow> size v < Suc (size_list (size_prod (\<lambda>_. 0) size) d)"
  by (induction d) auto

function py_eq :: "json \<Rightarrow> json \<Rightarrow> bool" where
  "py_eq JNull b = (b = JNull)"
| "py_eq (JBool x) b =
     (case b of JBool y \<Rightarrow> x = y | JInt j \<Rightarrow> (if x then 1 else 0) = j | _ \<Rightarrow> False)"
| "py_eq (JInt i) b =
     (case b of JInt j \<Rightarrow> i = j | JBool y \<Rightarrow> i = (if y then 1 else 0) | _ \<Rightarrow> False)"
| "py_eq (JStr s) b = (b = JStr s)"
| "py_eq (JList xs) b = (case b of JList ys \<Rightarrow> list_all2 py_eq xs ys | _ \<Rightarrow> False)"
| "py_eq (JObj d) b =
     (case b of
        JObj e \<Rightarrow>
          length d = length e \<and>
          list_all (\<lambda>kv. case map_of e (fst kv) of
                             None \<Rightarrow> False
                           | Some w \<Rightarrow> py_eq (snd kv) w) d
      | _ \<Rightarrow> False)"
  by pat_completeness auto
termination
proof (relation "measure (\<lambda>(a, b). size a + size b)", goal_cases)
  case 1
  show ?case by simp
next
  case (2 xs b ys z y)
  then show ?case
    using list_elem_size_less [of z xs] list_elem_size_less [of y ys] by simp
next
  case (3 d b e kv w)
  then show ?case
    using dict_value_size_less [of "fst kv" "snd kv" d] map_of_size_less [of e "fst kv" w]
    by simp
qed

text \<open>
  \<open>s.split(sep)\<close> for a non-empty separator: the pieces between the non-overlapping
  occurrences of \<open>sep\<close>, found left to right. The code calls it with the literals
  \<open>"${label."\<close>, \<open>"${annotation."\<close> and \<open>"}"\<close> only.
\<close>

function split_from :: "string \<Rightarrow> string \<Rightarrow> string \<Rightarrow> string list" where
  "split_from sep acc [] = [acc]"
| "split_from sep acc (c # cs) =
     (if sep \<noteq> [] \<and> starts_with sep (c # cs)
      then acc # split_from sep [] (drop (length sep) (c # cs))
      else split_from sep (acc @ [c]) cs)"
  by pat_completeness auto
termination
  by (relation "measure (\<lambda>(sep, acc, s). length s)") auto

definition py_split :: "string \<Rightarrow> string \<Rightarrow> string list" where
  "py_split sep s = split_from sep [] s"

text \<open>\<open>xs[i]\<close>: an index out of range raises \<open>IndexError\<close>.\<close>

definition py_index :: "'a list \<Rightarrow> nat \<Rightarrow> exn + 'a" where
  "py_index xs i = (if i < length xs then Inr (xs ! i) else Inl (IndexError ''list index out of range''))"

text \<open>\<open>k in d\<close> for a dict.\<close>

definition has_key :: "(string \<times> json) list \<Rightarrow> string \<Rightarrow> bool" where
  "has_key d k = (k \<in> set (map fst d))"

text \<open>
  \<open>x.get(k)\<close> and \<open>x.get(k, default)\<close> where \<open>x\<close> and \<open>k\<close> are arbitrary decoded values:
  \<open>x\<close> must be a dict (anything else has no \<open>get\<close>: \<open>AttributeError\<close>) and \<open>k\<close> must be
  hashable (a list or dict key raises \<open>TypeError\<close>); the keys of a decoded dict are
  strings, so a key that is not a string is never found.
\<close>

definition obj_get_default :: "json \<Rightarrow> json \<Rightarrow> json \<Rightarrow> exn + json" where
  "obj_get_default x k dflt =
     (case x of
        JObj d \<Rightarrow>
          (case k of
             JStr s \<Rightarrow> Inr (dict_get_default d s dflt)
           | JList _ \<Rightarrow> Inl (Exn ''unhashable type: list'')
           | JObj _ \<Rightarrow> Inl (Exn ''unhashable type: dict'')
           | _ \<Rightarrow> Inr dflt)
      | _ \<Rightarrow> Inl (Exn ''object has no attribute get''))"

definition obj_get :: "json \<Rightarrow> json \<Rightarrow> exn + json" where
  "obj_get x k = obj_get_default x k JNull"


subsection \<open>The interpreter's \<open>repr\<close>, \<open>json.dumps\<close> and \<open>json.loads\<close>\<close>

text \<open>
  The code formats values into messages with \<open>str\<close>/f-strings and converts between
  values and JSON text with the \<open>json\<close> module. These are not part of the repository; the
  functions below take them as a parameter of type \<open>pylib\<close>, and every general theorem
  holds for any such library.
\<close>

record pylib =
  py_repr :: "json \<Rightarrow> string"
  py_int :: "json \<Rightarrow> exn + int"
  json_dumps :: "json \<Rightarrow> string"
  json_loads :: "string \<Rightarrow> exn + json"

text \<open>
  A reference implementation of that library, used to evaluate the functions on concrete
  inputs. It follows CPython on the values of type \<open>json\<close> with characters read as the code
  points 0 to 255: \<open>repr\<close> of \<open>None\<close>, \<open>bool\<close>, \<open>int\<close>, \<open>str\<close>, \<open>list\<close> and
  \<open>dict\<close>; \<open>json.dumps\<close> with its default separators and \<open>ensure_ascii\<close>; and
  \<open>json.loads\<close> for JSON texts without fractional or exponent numbers, \<open>NaN\<close> or
  \<open>Infinity\<close>, and without escapes above code point 255 (their values lie outside the type
  \<open>json\<close>; the decoder below rejects them).
\<close>

definition hex_digit :: "nat \<Rightarrow> char" where
  "hex_digit n = ''0123456789abcdef'' ! (n mod 16)"

fun py_join :: "string \<Rightarrow> string list \<Rightarrow> string" where
  "py_join sep [] = []"
| "py_join sep [x] = x"
| "py_join sep (x # y # ys) = x @ sep @ py_join sep (y # ys)"

function nat_digits :: "nat \<Rightarrow> string" where
  "nat_digits n = (if n < 10 then [hex_digit n] else nat_digits (n div 10) @ [hex_digit (n mod 10)])"
  by pat_completeness auto
termination
  by (relation "measure id") auto

declare nat_digits.simps [simp del]

definition int_digits :: "int \<Rightarrow> string" where
  "int_digits i = (if i < 0 then CHR ''-'' # nat_digits (nat (- i)) else nat_digits (nat i))"

definition printable_char :: "char \<Rightarrow> bool" where
  "printable_char c =
     (let n = of_char c :: nat
      in (32 \<le> n \<and> n \<le> 126) \<or> (161 \<le> n \<and> n \<le> 172) \<or> 174 \<le> n)"

definition repr_char :: "char \<Rightarrow> char \<Rightarrow> string" where
  "repr_char q c =
     (if c = q \<or> c = CHR 0x5C then [CHR 0x5C, c]
      else if c = CHR 0x09 then [CHR 0x5C, CHR ''t'']
      else if c = CHR 0x0A then [CHR 0x5C, CHR ''n'']
      else if c = CHR 0x0D then [CHR 0x5C, CHR ''r'']
      else if printable_char c then [c]
      else [CHR 0x5C, CHR ''x'', hex_digit (of_char c div 16), hex_digit (of_char c mod 16)])"

definition repr_str :: "string \<Rightarrow> string" where
  "repr_str s =
     (let q = (if CHR 0x27 \<in> set s \<and> CHR 0x22 \<notin> set s then CHR 0x22 else CHR 0x27)
      in q # concat (map (repr_char q) s) @ [q])"

fun repr_json :: "json \<Rightarrow> string" where
  "repr_json JNull = ''None''"
| "repr_json (JBool b) = (if b then ''True'' else ''False'')"
| "repr_json (JInt i) = int_digits i"
| "repr_json (JStr s) = repr_str s"
| "repr_json (JList xs) = ''['' @ py_join '', '' (map repr_json xs) @ '']''"
| "repr_json (JObj d) =
     ''{'' @ py_join '', '' (map (\<lambda>kv. repr_str (fst kv) @ '': '' @ repr_json (snd kv)) d) @ ''}''"


definition dumps_char :: "char \<Rightarrow> string" where
  "dumps_char c =
     (if c = CHR 0x22 \<or> c = CHR 0x5C then [CHR 0x5C, c]
      else if c = CHR 0x0A then [CHR 0x5C, CHR ''n'']
      else if c = CHR 0x0D then [CHR 0x5C, CHR ''r'']
      else if c = CHR 0x09 then [CHR 0x5C, CHR ''t'']
      else if c = CHR 0x08 then [CHR 0x5C, CHR ''b'']
      else if c = CHR 0x0C then [CHR 0x5C, CHR ''f'']
      else if 32 \<le> (of_char c :: nat) \<and> (of_char c :: nat) \<le> 126 then [c]
      else [CHR 0x5C, CHR ''u'', CHR ''0'', CHR ''0'',
            hex_digit (of_char c div 16), hex_digit (of_char c mod 16)])"

definition dumps_str :: "string \<Rightarrow> string" where
  "dumps_str s = CHR 0x22 # concat (map dumps_char s) @ [CHR 0x22]"

fun dumps_json :: "json \<Rightarrow> string" where
  "dumps_json JNull = ''null''"
| "dumps_json (JBool b) = (if b then ''true'' else ''false'')"
| "dumps_json (JInt i) = int_digits i"
| "dumps_json (JStr s) = dumps_str s"
| "dumps_json (JList xs) = ''['' @ py_join '', '' (map dumps_json xs) @ '']''"
| "dumps_json (JObj d) =
     ''{'' @ py_join '', '' (map (\<lambda>kv. dumps_str (fst kv) @ '': '' @ dumps_json (snd kv)) d) @ ''}''"

definition is_ws :: "char \<Rightarrow> bool" where
  "is_ws c = (c = CHR '' '' \<or> c = CHR 0x09 \<or> c = CHR 0x0A \<or> c = CHR 0x0D)"

fun skip_ws :: "string \<Rightarrow> string" where
  "skip_ws [] = []"
| "skip_ws (c # cs) = (if is_ws c then skip_ws cs else c # cs)"

definition is_digit :: "char \<Rightarrow> bool" where
  "is_digit c = (c \<in> set ''0123456789'')"

definition digit_val :: "char \<Rightarrow> nat" where
  "digit_val c = (of_char c :: nat) - 48"

definition hex_val :: "char \<Rightarrow> nat option" where
  "hex_val c =
     map_of (zip ''0123456789abcdefABCDEF''
               [0, 1, 2, 3, 4, 5, 6, 7, 8, 9, 10, 11, 12, 13, 14, 15, 10, 11, 12, 13, 14, 15]) c"

text \<open>The body of a JSON string, after the opening quote; returns the text and the rest.\<close>

fun parse_str :: "string \<Rightarrow> string \<Rightarrow> (string \<times> string) option" where
  "parse_str acc [] = None"
| "parse_str acc (c # cs) =
     (if c = CHR 0x22 then Some (acc, cs)
      else if c = CHR 0x5C then
        (case cs of
           [] \<Rightarrow> None
         | e # es \<Rightarrow>
             if e = CHR 0x22 \<or> e = CHR 0x5C \<or> e = CHR ''/'' then parse_str (acc @ [e]) es
             else if e = CHR ''b'' then parse_str (acc @ [CHR 0x08]) es
             else if e = CHR ''f'' then parse_str (acc @ [CHR 0x0C]) es
             else if e = CHR ''n'' then parse_str (acc @ [CHR 0x0A]) es
             else if e = CHR ''r'' then parse_str (acc @ [CHR 0x0D]) es
             else if e = CHR ''t'' then parse_str (acc @ [CHR 0x09]) es
             else if e = CHR ''u'' then
               (case es of
                  h1 # h2 # h3 # h4 # rest \<Rightarrow>
                    (case (hex_val h1, hex_val h2, hex_val h3, hex_val h4) of
                       (Some a, Some b, Some x, Some y) \<Rightarrow>
                         if a = 0 \<and> b = 0 then parse_str (acc @ [char_of (16 * x + y)]) rest
                         else None
                     | _ \<Rightarrow> None)
                | _ \<Rightarrow> None)
             else None)
      else if (of_char c :: nat) < 32 then None
      else parse_str (acc @ [c]) cs)"

text \<open>An integer literal: \<open>-?(0|[1-9][0-9]*)\<close>, not followed by a fraction or an exponent.\<close>

definition parse_number :: "string \<Rightarrow> (json \<times> string) option" where
  "parse_number s =
     (let neg = (s \<noteq> [] \<and> hd s = CHR ''-'');
          t = (if neg then tl s else s);
          ds = (if t \<noteq> [] \<and> hd t = CHR ''0'' then ''0'' else takeWhile is_digit t);
          rest = drop (length ds) t;
          n = foldl (\<lambda>a c. 10 * a + int (digit_val c)) 0 ds
      in if ds = [] then None
         else if rest \<noteq> [] \<and> hd rest \<in> set ''.eE'' then None
         else Some (JInt (if neg then - n else n), rest))"

text \<open>
  The recursive descent of the decoder. The first argument bounds the number of nested
  calls; \<open>json_loads_ref\<close> starts it with the length of the text, which no text exceeds.
\<close>

fun parse_value :: "nat \<Rightarrow> string \<Rightarrow> (json \<times> string) option"
  and parse_array_rest :: "nat \<Rightarrow> json list \<Rightarrow> string \<Rightarrow> (json \<times> string) option"
  and parse_object_rest :: "nat \<Rightarrow> (string \<times> json) list \<Rightarrow> string \<Rightarrow> (json \<times> string) option"
  where
  "parse_value 0 s = None"
| "parse_value (Suc n) [] = None"
| "parse_value (Suc n) (c # cs) =
     (if c = CHR 0x22 then
        (case parse_str [] cs of
           None \<Rightarrow> None
         | Some (str, rest) \<Rightarrow> Some (JStr str, rest))
      else if c = CHR ''{'' then
        (case skip_ws cs of
           [] \<Rightarrow> None
         | d # rest \<Rightarrow>
             if d = CHR ''}'' then Some (JObj [], rest)
             else parse_object_rest n [] (d # rest))
      else if c = CHR ''['' then
        (case skip_ws cs of
           [] \<Rightarrow> None
         | d # rest \<Rightarrow>
             if d = CHR '']'' then Some (JList [], rest)
             else parse_array_rest n [] (d # rest))
      else if starts_with ''true'' (c # cs) then Some (JBool True, drop 4 (c # cs))
      else if starts_with ''false'' (c # cs) then Some (JBool False, drop 5 (c # cs))
      else if starts_with ''null'' (c # cs) then Some (JNull, drop 4 (c # cs))
      else parse_number (c # cs))"
| "parse_array_rest 0 acc s = None"
| "parse_array_rest (Suc n) acc s =
     (case parse_value n s of
        None \<Rightarrow> None
      | Some (v, rest) \<Rightarrow>
          (case skip_ws rest of
             [] \<Rightarrow> None
           | d # rest' \<Rightarrow>
               if d = CHR '','' then parse_array_rest n (acc @ [v]) (skip_ws rest')
               else if d = CHR '']'' then Some (JList (acc @ [v]), rest')
               else None))"
| "parse_object_rest 0 acc s = None"
| "parse_object_rest (Suc n) acc [] = None"
| "parse_object_rest (Suc n) acc (q # cs) =
     (if q \<noteq> CHR 0x22 then None
      else
        (case parse_str [] cs of
           None \<Rightarrow> None
         | Some (key, rest) \<Rightarrow>
             (case skip_ws rest of
                [] \<Rightarrow> None
              | d # rest' \<Rightarrow>
                  if d \<noteq> CHR '':'' then None
                  else
                    (case parse_value n (skip_ws rest') of
                       None \<Rightarrow> None
                     | Some (v, rest'') \<Rightarrow>
                         (case skip_ws rest'' of
                            [] \<Rightarrow> None
                          | d' # r \<Rightarrow>
                              if d' = CHR '','' then
                                parse_object_rest n (AList.update key v acc) (skip_ws r)
                              else if d' = CHR ''}'' then
                                Some (JObj (AList.update key v acc), r)
                              else None)))))"

definition json_loads_ref :: "string \<Rightarrow> exn + json" where
  "json_loads_ref s =
     (case parse_value (Suc (length s)) (skip_ws s) of
        None \<Rightarrow> Inl (JSONDecodeError ''Expecting value'')
      | Some (v, rest) \<Rightarrow>
          if skip_ws rest = [] then Inr v else Inl (JSONDecodeError ''Extra data''))"

text \<open>\<open>int(x)\<close> for an int, a bool, or a string of decimal digits with an optional sign.\<close>

definition int_ref :: "json \<Rightarrow> exn + int" where
  "int_ref v =
     (case v of
        JInt i \<Rightarrow> Inr i
      | JBool b \<Rightarrow> Inr (if b then 1 else 0)
      | JStr s \<Rightarrow>
          (let neg = (s \<noteq> [] \<and> hd s = CHR ''-'');
               ds = (if s \<noteq> [] \<and> hd s \<in> set ''+-'' then tl s else s);
               n = foldl (\<lambda>a c. 10 * a + int (digit_val c)) 0 ds
           in if ds \<noteq> [] \<and> list_all is_digit ds then Inr (if neg then - n else n)
              else Inl (Exn ''invalid literal for int() with base 10''))
      | _ \<Rightarrow> Inl (Exn ''int() argument must be a string or a number''))"

definition py :: pylib where
  "py = \<lparr>py_repr = repr_json, py_int = int_ref, json_dumps = dumps_json,
         json_loads = json_loads_ref\<rparr>"

section \<open>Command router: classification of backend responses\<close>

text \<open>The substrings tested by \<open>is_server_error\<close>, in source order.\<close>

definition server_error_markers :: "string list" where
  "server_error_markers =
     [''connection'', ''server not accessible'', ''failed to initialize'',
      ''all connection attempts failed'', ''http'', ''404'', ''503'']"

text \<open>\<open>error_msg\<close> of \<open>is_server_error\<close>, for a dict response.\<close>

definition error_msg :: "(json \<Rightarrow> string) \<Rightarrow> (string \<times> json) list \<Rightarrow> string" where
  "error_msg rp d =
     (let error_field = dict_get_default d ''error'' (JStr [])
      in if truthy error_field then py_lower (py_str rp error_field) else [])"

definition is_server_error :: "(json \<Rightarrow> string) \<Rightarrow> json \<Rightarrow> bool" where
  "is_server_error rp response =
     (case response of
        JObj d \<Rightarrow>
          (let em = error_msg rp d
           in dict_get d ''status'' = JStr ''error'' \<and>
              (py_in ''connection'' em \<or>
               py_in ''server not accessible'' em \<or>
               py_in ''failed to initialize'' em \<or>
               py_in ''all connection attempts failed'' em \<or>
               py_in ''http'' em \<or>
               py_in ''404'' em \<or>
               py_in ''503'' em))
      | _ \<Rightarrow> False)"

text \<open>
  The claim's wording, for comparison with the code: "the error text contains at least one
  of the fixed substrings", where the error text is the string form of the \<open>error\<close> field.
\<close>

definition contains_marker :: "string \<Rightarrow> bool" where
  "contains_marker txt = list_ex (\<lambda>m. py_in m txt) server_error_markers"

definition error_text :: "(json \<Rightarrow> string) \<Rightarrow> (string \<times> json) list \<Rightarrow> string" where
  "error_text r d = py_str r (dict_get_default d ''error'' (JStr []))"

section \<open>Alert evaluator (\<open>app/core/self_healing.py\<close>)\<close>

text \<open>
  The fields of \<open>Policy\<close> and \<open>PrometheusAlert\<close> that the evaluator reads. The field
  names carry a prefix because \<open>name\<close>, \<open>action\<close> and \<open>status\<close> are used as variable
  names throughout.
\<close>

record policy =
  p_name :: string
  p_condition :: "(string \<times> json) list"
  p_action :: "(string \<times> json) list"
  p_priority :: int

record prometheus_alert =
  a_status :: string
  a_alerts :: "(string \<times> json) list list"

text \<open>The loop of condition format 2: every pair of \<open>condition["labels"]\<close> must match.\<close>

fun match_labels :: "json \<Rightarrow> (string \<times> json) list \<Rightarrow> exn + bool" where
  "match_labels labels [] = Inr True"
| "match_labels labels ((key, val) # rest) =
     (case obj_get labels (JStr key) of
        Inl e \<Rightarrow> Inl e
      | Inr actual \<Rightarrow>
          if \<not> py_eq actual val then Inr False else match_labels labels rest)"

definition match_condition ::
  "(string \<times> json) list \<Rightarrow> json \<Rightarrow> json \<Rightarrow> string \<Rightarrow> exn + bool" where
  "match_condition condition labels annotations status =
     (if has_key condition ''label'' \<and> has_key condition ''value'' then
        (let label_key = dict_get condition ''label'';
             expected_value = dict_get condition ''value''
         in case obj_get labels label_key of
              Inl e \<Rightarrow> Inl e
            | Inr v \<Rightarrow>
                if truthy v then Inr (py_eq v expected_value)
                else (case obj_get annotations label_key of
                        Inl e \<Rightarrow> Inl e
                      | Inr w \<Rightarrow> Inr (py_eq w expected_value)))
      else if has_key condition ''labels'' then
        (case dict_get condition ''labels'' of
           JObj kvs \<Rightarrow> match_labels labels kvs
         | _ \<Rightarrow> Inl (Exn ''object has no attribute items''))
      else if has_key condition ''status'' then
        Inr (py_eq (JStr status) (dict_get condition ''status''))
      else if has_key condition ''expression'' then Inr False
      else Inr False)"

text \<open>
  One iteration of the loop of \<open>_interpolate_params\<close>: the value stored under \<open>key\<close>.
\<close>

definition interpolate_value :: "json \<Rightarrow> json \<Rightarrow> json \<Rightarrow> exn + json" where
  "interpolate_value val labels annotations =
     (case val of
        JStr s \<Rightarrow>
          if py_in ''${label.'' s then
            (case py_index (py_split ''${label.'' s) 1 of
               Inl e \<Rightarrow> Inl e
             | Inr piece \<Rightarrow>
                 (case py_index (py_split ''}'' piece) 0 of
                    Inl e \<Rightarrow> Inl e
                  | Inr label_key \<Rightarrow> obj_get_default labels (JStr label_key) val))
          else if py_in ''${annotation.'' s then
            (case py_index (py_split ''${annotation.'' s) 1 of
               Inl e \<Rightarrow> Inl e
             | Inr piece \<Rightarrow>
                 (case py_index (py_split ''}'' piece) 0 of
                    Inl e \<Rightarrow> Inl e
                  | Inr annotation_key \<Rightarrow> obj_get_default annotations (JStr annotation_key) val))
          else Inr val
      | _ \<Rightarrow> Inr val)"

fun interpolate_items ::
  "(string \<times> json) list \<Rightarrow> (string \<times> json) list \<Rightarrow> json \<Rightarrow> json \<Rightarrow>
   exn + (string \<times> json) list" where
  "interpolate_items result [] labels annotations = Inr result"
| "interpolate_items result ((key, val) # rest) labels annotations =
     (case interpolate_value val labels annotations of
        Inl e \<Rightarrow> Inl e
      | Inr v \<Rightarrow> interpolate_items (AList.update key v result) rest labels annotations)"

definition interpolate_params :: "json \<Rightarrow> json \<Rightarrow> json \<Rightarrow> exn + json" where
  "interpolate_params params labels annotations =
     (case params of
        JObj items \<Rightarrow>
          (case interpolate_items [] items labels annotations of
             Inl e \<Rightarrow> Inl e
           | Inr result \<Rightarrow> Inr (JObj result))
      | _ \<Rightarrow> Inl (Exn ''object has no attribute items''))"

text \<open>
  Lines 41 to 50 of \<open>evaluate_alert\<close>: the action returned for a matched policy. On values
  \<open>policy.action.copy()\<close> is the dict itself; the object identities are the subject of the
  store model further down.
\<close>

definition prepare_action :: "policy \<Rightarrow> json \<Rightarrow> json \<Rightarrow> exn + json" where
  "prepare_action pol labels annotations =
     (let action = p_action pol;
          action = AList.update ''policy_name'' (JStr (p_name pol)) action;
          action = AList.update ''alert_labels'' labels action
      in if has_key action ''params'' then
           (case interpolate_params (dict_get action ''params'') labels annotations of
              Inl e \<Rightarrow> Inl e
            | Inr params \<Rightarrow> Inr (JObj (AList.update ''params'' params action)))
         else Inr (JObj action))"

text \<open>The inner loop, over the policies, for one alert entry.\<close>

fun eval_policies :: "policy list \<Rightarrow> json \<Rightarrow> json \<Rightarrow> string \<Rightarrow> exn + json option" where
  "eval_policies [] labels annotations status = Inr None"
| "eval_policies (pol # rest) labels annotations status =
     (case match_condition (p_condition pol) labels annotations status of
        Inl e \<Rightarrow> Inl e
      | Inr True \<Rightarrow>
          (case prepare_action pol labels annotations of
             Inl e \<Rightarrow> Inl e
           | Inr action \<Rightarrow> Inr (Some action))
      | Inr False \<Rightarrow> eval_policies rest labels annotations status)"

text \<open>
  \<open>labels\<close> and \<open>annotations\<close> of one entry; the \<open>print\<close> of line 34 calls \<open>labels.get\<close>
  and so raises when \<open>labels\<close> is not a dict.
\<close>

definition entry_labels :: "(string \<times> json) list \<Rightarrow> json" where
  "entry_labels alert_item = dict_get_default alert_item ''labels'' (JObj [])"

definition entry_annotations :: "(string \<times> json) list \<Rightarrow> json" where
  "entry_annotations alert_item = dict_get_default alert_item ''annotations'' (JObj [])"

text \<open>The outer loop, over the alert entries.\<close>

fun eval_entries :: "policy list \<Rightarrow> string \<Rightarrow> (string \<times> json) list list \<Rightarrow> exn + json option" where
  "eval_entries policies status [] = Inr None"
| "eval_entries policies status (alert_item # rest) =
     (case obj_get_default (entry_labels alert_item) (JStr ''alertname'') (JStr ''unknown'') of
        Inl e \<Rightarrow> Inl e
      | Inr _ \<Rightarrow>
          (case eval_policies policies (entry_labels alert_item)
                  (entry_annotations alert_item) status of
             Inl e \<Rightarrow> Inl e
           | Inr (Some action) \<Rightarrow> Inr (Some action)
           | Inr None \<Rightarrow> eval_entries policies status rest))"

text \<open>
  \<open>evaluate_alert\<close>. The policies are the result of \<open>get_all_policies()\<close>, which reads
  them with \<open>ORDER BY priority ASC\<close>; the list is the argument \<open>policies\<close>.
\<close>

definition evaluate_alert :: "policy list \<Rightarrow> prometheus_alert \<Rightarrow> exn + json option" where
  "evaluate_alert policies alert =
     (if policies = [] then Inr None
      else eval_entries policies (a_status alert) (a_alerts alert))"

text \<open>
  An alert entry matches a policy when \<open>_match_condition\<close> returns \<open>True\<close> for the
  policy's condition and the entry's labels and annotations; it is rejected when
  \<open>_match_condition\<close> returns \<open>False\<close> (the third outcome is an exception). An entry is
  readable when its labels are a dict, so that line 34 does not raise.
\<close>

definition entry_matches :: "string \<Rightarrow> (string \<times> json) list \<Rightarrow> policy \<Rightarrow> bool" where
  "entry_matches status alert_item pol =
     (match_condition (p_condition pol) (entry_labels alert_item)
        (entry_annotations alert_item) status = Inr True)"

definition entry_rejects :: "string \<Rightarrow> (string \<times> json) list \<Rightarrow> policy \<Rightarrow> bool" where
  "entry_rejects status alert_item pol =
     (match_condition (p_condition pol) (entry_labels alert_item)
        (entry_annotations alert_item) status = Inr False)"

definition entry_readable :: "(string \<times> json) list \<Rightarrow> bool" where
  "entry_readable alert_item = (case entry_labels alert_item of JObj d \<Rightarrow> True | _ \<Rightarrow> False)"

text \<open>The action returned for a matched pair, as \<open>evaluate_alert\<close> returns it.\<close>

definition matched_action :: "policy \<Rightarrow> (string \<times> json) list \<Rightarrow> exn + json option" where
  "matched_action pol alert_item =
     (case prepare_action pol (entry_labels alert_item) (entry_annotations alert_item) of
        Inl e \<Rightarrow> Inl e
      | Inr action \<Rightarrow> Inr (Some action))"

text \<open>
  The scan order of \<open>evaluate_alert\<close>, stated on its own: \<open>item\<close> is the first entry of
  the payload that any policy matches and \<open>pol\<close> is the first policy, in fetched order,
  that matches it; every pair scanned before was rejected without an exception.
\<close>

definition first_match_at ::
  "policy list \<Rightarrow> prometheus_alert \<Rightarrow> (string \<times> json) list list \<Rightarrow> (string \<times> json) list \<Rightarrow>
   (string \<times> json) list list \<Rightarrow> policy list \<Rightarrow> policy \<Rightarrow> policy list \<Rightarrow> bool" where
  "first_match_at P A before alert_item after ps1 pol ps2 =
     (a_alerts A = before @ alert_item # after \<and> P = ps1 @ pol # ps2 \<and>
      (\<forall>it \<in> set before. entry_readable it \<and> (\<forall>q \<in> set P. entry_rejects (a_status A) it q)) \<and>
      entry_readable alert_item \<and>
      (\<forall>q \<in> set ps1. entry_rejects (a_status A) alert_item q) \<and>
      entry_matches (a_status A) alert_item pol)"

definition no_match :: "policy list \<Rightarrow> prometheus_alert \<Rightarrow> bool" where
  "no_match P A =
     (\<forall>it \<in> set (a_alerts A).
        entry_readable it \<and> (\<forall>q \<in> set P. entry_rejects (a_status A) it q))"

text \<open>Example policies and alerts.\<close>

definition ex_policy_b :: policy where
  "ex_policy_b =
     \<lparr>p_name = ''on-b'', p_condition = [(''labels'', JObj [(''alertname'', JStr ''B'')])],
      p_action = [(''tool'', JStr ''tool_b'')], p_priority = 1\<rparr>"

definition ex_policy_a :: policy where
  "ex_policy_a =
     \<lparr>p_name = ''on-a'', p_condition = [(''labels'', JObj [(''alertname'', JStr ''A'')])],
      p_action = [(''tool'', JStr ''tool_a'')], p_priority = 2\<rparr>"

definition ex_entry_a :: "(string \<times> json) list" where
  "ex_entry_a = [(''labels'', JObj [(''alertname'', JStr ''A'')])]"

definition ex_entry_b :: "(string \<times> json) list" where
  "ex_entry_b = [(''labels'', JObj [(''alertname'', JStr ''B'')])]"

definition ex_alert_ab :: prometheus_alert where
  "ex_alert_ab = \<lparr>a_status = ''firing'', a_alerts = [ex_entry_a, ex_entry_b]\<rparr>"

section \<open>Object identity in the alert evaluator\<close>

text \<open>
  Dicts and lists are mutable objects. To follow which objects the returned action shares
  with the stored policy, the objects live in a store: an address is an index into the list
  of allocated objects, a container holds immutable values or references, and allocation
  appends to the store.
\<close>

type_synonym addr = nat

datatype pval = VNone | VBool bool | VInt int | VStr string | VRef addr

datatype pobj = ODict "(string \<times> pval) list" | OList "pval list"

type_synonym heap = "pobj list"

definition alloc :: "heap \<Rightarrow> pobj \<Rightarrow> addr \<times> heap" where
  "alloc h ob = (length h, h @ [ob])"

text \<open>\<open>d[k] = v\<close> on the dict stored at \<open>a\<close>.\<close>

definition set_item :: "heap \<Rightarrow> addr \<Rightarrow> string \<Rightarrow> pval \<Rightarrow> heap" where
  "set_item h a k v =
     (case h ! a of
        ODict items \<Rightarrow> h[a := ODict (AList.update k v items)]
      | OList xs \<Rightarrow> h)"

text \<open>The items of the dict stored at \<open>a\<close>.\<close>

definition dict_items :: "heap \<Rightarrow> addr \<Rightarrow> (string \<times> pval) list" where
  "dict_items h a = (case h ! a of ODict items \<Rightarrow> items | OList xs \<Rightarrow> [])"

text \<open>\<open>x.get(key, default)\<close>: \<open>x\<close> must refer to a dict.\<close>

definition h_get :: "heap \<Rightarrow> pval \<Rightarrow> string \<Rightarrow> pval \<Rightarrow> exn + pval" where
  "h_get h x key dflt =
     (case x of
        VRef a \<Rightarrow>
          (if a < length h then
             (case h ! a of
                ODict items \<Rightarrow>
                  Inr (case map_of items key of None \<Rightarrow> dflt | Some v \<Rightarrow> v)
              | OList xs \<Rightarrow> Inl (Exn ''object has no attribute get''))
           else Inl (Exn ''dangling reference''))
      | _ \<Rightarrow> Inl (Exn ''object has no attribute get''))"

text \<open>\<open>policy.action.copy()\<close>: a new dict with the same items (a shallow copy).\<close>

definition dict_copy :: "heap \<Rightarrow> addr \<Rightarrow> exn + addr \<times> heap" where
  "dict_copy h a =
     (if a < length h then
        (case h ! a of
           ODict items \<Rightarrow> Inr (alloc h (ODict items))
         | OList xs \<Rightarrow> Inl (Exn ''not a dict''))
      else Inl (Exn ''dangling reference''))"

text \<open>\<open>_interpolate_params\<close> on the store: one value, the loop, the function.\<close>

definition interpolate_value_h :: "heap \<Rightarrow> pval \<Rightarrow> pval \<Rightarrow> pval \<Rightarrow> exn + pval" where
  "interpolate_value_h h val labels annotations =
     (case val of
        VStr s \<Rightarrow>
          if py_in ''${label.'' s then
            (case py_index (py_split ''${label.'' s) 1 of
               Inl e \<Rightarrow> Inl e
             | Inr piece \<Rightarrow>
                 (case py_index (py_split ''}'' piece) 0 of
                    Inl e \<Rightarrow> Inl e
                  | Inr label_key \<Rightarrow> h_get h labels label_key val))
          else if py_in ''${annotation.'' s then
            (case py_index (py_split ''${annotation.'' s) 1 of
               Inl e \<Rightarrow> Inl e
             | Inr piece \<Rightarrow>
                 (case py_index (py_split ''}'' piece) 0 of
                    Inl e \<Rightarrow> Inl e
                  | Inr annotation_key \<Rightarrow> h_get h annotations annotation_key val))
          else Inr val
      | _ \<Rightarrow> Inr val)"

fun interpolate_loop ::
  "heap \<Rightarrow> addr \<Rightarrow> (string \<times> pval) list \<Rightarrow> pval \<Rightarrow> pval \<Rightarrow> exn + heap" where
  "interpolate_loop h r [] labels annotations = Inr h"
| "interpolate_loop h r ((key, val) # rest) labels annotations =
     (case interpolate_value_h h val labels annotations of
        Inl e \<Rightarrow> Inl e
      | Inr v \<Rightarrow> interpolate_loop (set_item h r key v) r rest labels annotations)"

definition interpolate_params_h ::
  "heap \<Rightarrow> pval \<Rightarrow> pval \<Rightarrow> pval \<Rightarrow> exn + addr \<times> heap" where
  "interpolate_params_h h params labels annotations =
     (let (r, h1) = alloc h (ODict [])
      in case params of
           VRef p \<Rightarrow>
             (if p < length h then
                (case h ! p of
                   ODict items \<Rightarrow>
                     (case interpolate_loop h1 r items labels annotations of
                        Inl e \<Rightarrow> Inl e
                      | Inr h2 \<Rightarrow> Inr (r, h2))
                 | OList xs \<Rightarrow> Inl (Exn ''object has no attribute items''))
              else Inl (Exn ''dangling reference''))
         | _ \<Rightarrow> Inl (Exn ''object has no attribute items''))"

text \<open>
  Lines 41 to 50 of \<open>evaluate_alert\<close> on the store: \<open>action_addr\<close> is the dict
  \<open>policy.action\<close>, \<open>labels\<close> and \<open>annotations\<close> are the entry's. The result is the
  returned reference and the store after the call.
\<close>

definition prepare_action_h ::
  "heap \<Rightarrow> string \<Rightarrow> addr \<Rightarrow> pval \<Rightarrow> pval \<Rightarrow> exn + pval \<times> heap" where
  "prepare_action_h h policy_name action_addr labels annotations =
     (case dict_copy h action_addr of
        Inl e \<Rightarrow> Inl e
      | Inr (a, h1) \<Rightarrow>
          (let h2 = set_item h1 a ''policy_name'' (VStr policy_name);
               h3 = set_item h2 a ''alert_labels'' labels
           in case map_of (dict_items h3 a) ''params'' of
                None \<Rightarrow> Inr (VRef a, h3)
              | Some params \<Rightarrow>
                  (case interpolate_params_h h3 params labels annotations of
                     Inl e \<Rightarrow> Inl e
                   | Inr (r, h4) \<Rightarrow> Inr (VRef a, set_item h4 a ''params'' (VRef r)))))"

text \<open>
  \<open>reach h v b\<close>: the object at \<open>b\<close> is \<open>v\<close> itself or a part of it, at any nesting depth.
\<close>

inductive reach :: "heap \<Rightarrow> pval \<Rightarrow> addr \<Rightarrow> bool" where
  reach_self: "reach h (VRef a) a"
| reach_dict:
    "a < length h \<Longrightarrow> h ! a = ODict items \<Longrightarrow> (k, v) \<in> set items \<Longrightarrow> reach h v b \<Longrightarrow>
     reach h (VRef a) b"
| reach_list:
    "a < length h \<Longrightarrow> h ! a = OList xs \<Longrightarrow> v \<in> set xs \<Longrightarrow> reach h v b \<Longrightarrow>
     reach h (VRef a) b"

text \<open>
  An example store: a policy action \<open>{"tool": "scale", "params": {"targets": ["web"]}}\<close>
  at address 0 (its params dict at 1, the list at 2) and an entry's labels at 3.
\<close>

definition ex_heap :: heap where
  "ex_heap =
     [ODict [(''tool'', VStr ''scale''), (''params'', VRef 1)],
      ODict [(''targets'', VRef 2)],
      OList [VStr ''web''],
      ODict [(''alertname'', VStr ''HighLoad'')]]"

section \<open>Remediation worker (\<open>app/worker.py\<close>)\<close>

text \<open>
  The worker's surroundings are a Redis list, the job-log table and the tool handlers. The
  state holds the queue (producers push at the head with \<open>lpush\<close>, the worker pops at the
  tail with \<open>brpop\<close>), the rows appended by \<open>log_job\<close> and the handler invocations made so
  far. The handlers are a parameter: given the tool name and the keyword arguments, a
  handler call (including the \<open>await\<close> of what it returns) raises or yields a result.
  Storing a row is taken to succeed.
\<close>

record job_log_entry =
  j_action :: json
  j_target :: json
  j_status :: json
  j_result :: json

record wstate =
  w_queue :: "string list"
  w_job_log :: "job_log_entry list"
  w_invoked :: "(string \<times> json) list"

type_synonym handlers = "string \<Rightarrow> json \<Rightarrow> exn + json"

text \<open>The keys of \<open>TOOL_MAP\<close>.\<close>

definition tool_names :: "string list" where
  "tool_names =
     [''mcp_restart_vm'', ''mcp_restart_pod'', ''mcp_query_prometheus'',
      ''mcp_get_grafana_dashboard'', ''mcp_scale_deployment'']"

text \<open>\<open>TOOL_MAP.get(tool_name)\<close>: the handler's name when there is one.\<close>

definition tool_map_get :: "json \<Rightarrow> exn + string option" where
  "tool_map_get tool_name =
     (case tool_name of
        JStr s \<Rightarrow> Inr (if s \<in> set tool_names then Some s else None)
      | JList _ \<Rightarrow> Inl (Exn ''unhashable type: list'')
      | JObj _ \<Rightarrow> Inl (Exn ''unhashable type: dict'')
      | _ \<Rightarrow> Inr None)"

definition log_job :: "wstate \<Rightarrow> json \<Rightarrow> json \<Rightarrow> json \<Rightarrow> json \<Rightarrow> wstate" where
  "log_job st action target status result =
     st\<lparr>w_job_log := w_job_log st @
          [\<lparr>j_action = action, j_target = target, j_status = status, j_result = result\<rparr>]\<rparr>"

text \<open>
  \<open>params.get("vm_name") or params.get("pod_name") or params.get("deployment_name") or
  "unknown"\<close>.
\<close>

definition job_target :: "(string \<times> json) list \<Rightarrow> json" where
  "job_target p =
     (if truthy (dict_get p ''vm_name'') then dict_get p ''vm_name''
      else if truthy (dict_get p ''pod_name'') then dict_get p ''pod_name''
      else if truthy (dict_get p ''deployment_name'') then dict_get p ''deployment_name''
      else JStr ''unknown'')"

text \<open>
  The \<open>try\<close> block of \<open>process_task\<close> (lines 60 to 76). An exception comes with the state
  reached when it was raised.
\<close>

definition run_tool ::
  "pylib \<Rightarrow> handlers \<Rightarrow> string \<Rightarrow> json \<Rightarrow> wstate \<Rightarrow> (exn \<times> wstate) + wstate" where
  "run_tool L H tool_name params st =
     (case params of
        JObj p \<Rightarrow>
          (let st1 = st\<lparr>w_invoked := w_invoked st @ [(tool_name, params)]\<rparr>
           in case H tool_name params of
                Inl e \<Rightarrow> Inl (e, st1)
              | Inr result \<Rightarrow>
                  (case (case result of JStr s \<Rightarrow> json_loads L s | _ \<Rightarrow> Inr result) of
                     Inl e \<Rightarrow> Inl (e, st1)
                   | Inr result_data \<Rightarrow>
                       (case obj_get_default result_data (JStr ''status'') (JStr ''unknown'') of
                          Inl e \<Rightarrow> Inl (e, st1)
                        | Inr status \<Rightarrow>
                            Inr (log_job st1 (JStr tool_name) (job_target p) status result))))
      | _ \<Rightarrow> Inl (Exn ''argument after ** must be a mapping'', st))"

definition process_task :: "pylib \<Rightarrow> handlers \<Rightarrow> json \<Rightarrow> wstate \<Rightarrow> exn + wstate" where
  "process_task L H task_data st =
     (case task_data of
        JObj td \<Rightarrow>
          (let tool_name = dict_get td ''tool'';
               params = dict_get_default td ''params'' (JObj [])
           in case tool_map_get tool_name of
                Inl e \<Rightarrow> Inl e
              | Inr None \<Rightarrow>
                  Inr (log_job st tool_name (JStr (py_str (py_repr L) params)) (JStr ''error'')
                         (JStr (''Unknown tool: '' @ py_str (py_repr L) tool_name)))
              | Inr (Some f) \<Rightarrow>
                  (case run_tool L H f params st of
                     Inr st' \<Rightarrow> Inr st'
                   | Inl (e, st1) \<Rightarrow>
                       Inr (log_job st1 tool_name (JStr (py_str (py_repr L) params))
                              (JStr ''error'')
                              (JStr (''Error executing '' @ py_str (py_repr L) tool_name @
                                     '': '' @ exn_str e)))))
      | _ \<Rightarrow> Inl (Exn ''object has no attribute get''))"

text \<open>
  One iteration of the \<open>while True\<close> loop of \<open>worker_loop\<close>. \<open>brpop\<close> returns nothing when
  the queue stays empty for the timeout. A \<open>JSONDecodeError\<close> of the message is caught by
  the inner handler, every other exception that leaves \<open>process_task\<close> by the outer
  \<open>except Exception\<close>; both print and go on with the next iteration. (Only
  \<open>KeyboardInterrupt\<close>, a signal from outside, leaves the loop; a failure of
  \<open>brpop\<close> itself is caught by the outer clause too and leaves the state as it is.)
\<close>

definition worker_iteration :: "pylib \<Rightarrow> handlers \<Rightarrow> wstate \<Rightarrow> wstate" where
  "worker_iteration L H st =
     (if w_queue st = [] then st
      else
        (let task_json = last (w_queue st);
             st1 = st\<lparr>w_queue := butlast (w_queue st)\<rparr>
         in case json_loads L task_json of
              Inl e \<Rightarrow> st1
            | Inr task_data \<Rightarrow>
                (case process_task L H task_data st1 of
                   Inl e \<Rightarrow> st1
                 | Inr st2 \<Rightarrow> st2)))"

text \<open>The first \<open>n\<close> iterations of the loop.\<close>

fun worker_loop :: "pylib \<Rightarrow> handlers \<Rightarrow> nat \<Rightarrow> wstate \<Rightarrow> wstate" where
  "worker_loop L H 0 st = st"
| "worker_loop L H (Suc n) st = worker_loop L H n (worker_iteration L H st)"

text \<open>
  Example handlers: \<open>mcp_restart_pod\<close> reports success, any other tool fails to connect.
\<close>

definition ex_handlers :: handlers where
  "ex_handlers tool_name params =
     (if tool_name = ''mcp_restart_pod''
      then Inr (JStr ''{\"status\": \"success\"}'')
      else Inl (Exn ''connection refused''))"

definition ex_msg_vm :: string where
  "ex_msg_vm = ''{\"tool\": \"mcp_restart_vm\", \"params\": {\"vm_name\": \"db-1\"}}''"

definition ex_msg_pod :: string where
  "ex_msg_pod = ''{\"tool\": \"mcp_restart_pod\", \"params\": {\"pod_name\": \"web-1\"}}''"

definition ex_msg_bad :: string where
  "ex_msg_bad = ''{not json''"

definition ex_msg_unknown :: string where
  "ex_msg_unknown = ''{\"tool\": \"restart_pod\", \"params\": {\"pod_name\": \"web-1\"}}''"

definition ex_wstate :: wstate where
  "ex_wstate =
     \<lparr>w_queue = [ex_msg_vm, ex_msg_pod, ex_msg_bad, ex_msg_unknown],
      w_job_log = [], w_invoked = []\<rparr>"

section \<open>Command router (\<open>route_infra_command\<close> in \<open>app/core/engine.py\<close>)\<close>

text \<open>
  What the router does to its surroundings is recorded in its state: the three cached
  backend clients (the module-level singletons returned by \<open>get_prometheus_mcp_client\<close>,
  \<open>get_grafana_mcp_client\<close> and \<open>get_esxi_mcp_client\<close>) and the trace of the requests sent
  to the backends, either a liveness probe or a tool call with its arguments.
\<close>

datatype backend_call = Probe string | ToolCall string string json

record rstate =
  prom_client :: bool
  graf_client :: bool
  esxi_client :: bool
  calls :: "backend_call list"

text \<open>
  The backends are a parameter: what each request yields. A request raises or returns;
  \<open>k8s_post\<close> returns the HTTP status together with the outcome of \<open>response.json()\<close>.
  The three \<open>*_start\<close> fields are the results of the clients' \<open>start_server()\<close>, which
  catches its own exceptions and returns a bool. \<open>prom_tools\<close> is the Prometheus client's
  \<open>available_tools\<close>.
\<close>

record renv =
  k8s_health :: "exn + nat"
  k8s_post :: "json \<Rightarrow> exn + nat \<times> (exn + json)"
  prom_start :: bool
  prom_tools :: "(string \<times> json) list"
  prom_execute :: "string \<Rightarrow> json \<Rightarrow> exn + json"
  graf_start :: bool
  graf_execute :: "string \<Rightarrow> json \<Rightarrow> exn + json"
  esxi_start :: bool
  esxi_call :: "string \<Rightarrow> json \<Rightarrow> exn + json"
  net_discovery :: "json \<Rightarrow> exn + string"

text \<open>
  A branch of the router returns a string (\<open>Inr (Some s)\<close>), falls through to the
  fallback at the end of the \<open>try\<close> block (\<open>Inr None\<close>) or raises (\<open>Inl e\<close>).
\<close>

type_synonym outcome = "(exn + string option) \<times> rstate"

definition returns :: "string \<Rightarrow> rstate \<Rightarrow> outcome" where
  "returns s st = (Inr (Some s), st)"

definition falls_through :: "rstate \<Rightarrow> outcome" where
  "falls_through st = (Inr None, st)"

definition raises :: "exn \<Rightarrow> rstate \<Rightarrow> outcome" where
  "raises e st = (Inl e, st)"

text \<open>A tool call sent to a backend, and \<open>return json.dumps(result)\<close> of what it yields.\<close>

definition record_call :: "string \<Rightarrow> string \<Rightarrow> json \<Rightarrow> rstate \<Rightarrow> rstate" where
  "record_call backend tool args st = st\<lparr>calls := calls st @ [ToolCall backend tool args]\<rparr>"

definition return_dumps :: "pylib \<Rightarrow> exn + json \<Rightarrow> rstate \<Rightarrow> outcome" where
  "return_dumps L res st =
     (case res of Inl e \<Rightarrow> raises e st | Inr result \<Rightarrow> returns (json_dumps L result) st)"

text \<open>\<open>x in ["a", "b"]\<close> for a list of string literals.\<close>

definition in_strs :: "json \<Rightarrow> string list \<Rightarrow> bool" where
  "in_strs x names = (case x of JStr s \<Rightarrow> s \<in> set names | _ \<Rightarrow> False)"

text \<open>The three client factories: the cached client, or a liveness probe first.\<close>

definition get_prometheus_mcp_client :: "renv \<Rightarrow> rstate \<Rightarrow> (exn + unit) \<times> rstate" where
  "get_prometheus_mcp_client E st =
     (if prom_client st then (Inr (), st)
      else
        (let st1 = st\<lparr>calls := calls st @ [Probe ''prometheus'']\<rparr>
         in if prom_start E then (Inr (), st1\<lparr>prom_client := True\<rparr>)
            else (Inl (Exn ''Prometheus MCP server not accessible''), st1)))"

definition get_grafana_mcp_client :: "renv \<Rightarrow> rstate \<Rightarrow> (exn + unit) \<times> rstate" where
  "get_grafana_mcp_client E st =
     (if graf_client st then (Inr (), st)
      else
        (let st1 = st\<lparr>calls := calls st @ [Probe ''grafana'']\<rparr>
         in if graf_start E then (Inr (), st1\<lparr>graf_client := True\<rparr>)
            else (Inl (Exn ''Grafana MCP server not accessible''), st1)))"

definition get_esxi_mcp_client :: "renv \<Rightarrow> rstate \<Rightarrow> (exn + unit) \<times> rstate" where
  "get_esxi_mcp_client E st =
     (if esxi_client st then (Inr (), st)
      else
        (let st1 = st\<lparr>calls := calls st @ [Probe ''vmware'']\<rparr>
         in if esxi_start E then (Inr (), st1\<lparr>esxi_client := True\<rparr>)
            else (Inl (Exn ''ESXi MCP server not accessible''), st1)))"

subsection \<open>The kubernetes branch\<close>

text \<open>\<open>resource_map.get(resource, resource)\<close>.\<close>

definition resource_map :: "(string \<times> string) list" where
  "resource_map =
     [(''pods'', ''pods''), (''pod'', ''pods''),
      (''deployments'', ''deployments''), (''deployment'', ''deployments''),
      (''services'', ''services''), (''service'', ''services''),
      (''nodes'', ''nodes''), (''node'', ''nodes''),
      (''namespaces'', ''namespaces''), (''namespace'', ''namespaces'')]"

definition kube_resource_of :: "json \<Rightarrow> exn + json" where
  "kube_resource_of resource =
     (case resource of
        JStr s \<Rightarrow> Inr (case map_of resource_map s of None \<Rightarrow> resource | Some r \<Rightarrow> JStr r)
      | JList _ \<Rightarrow> Inl (Exn ''unhashable type: list'')
      | JObj _ \<Rightarrow> Inl (Exn ''unhashable type: dict'')
      | _ \<Rightarrow> Inr resource)"

text \<open>
  \<open>params = {...}\<close> followed by \<open>if namespace != "default": params["namespace"] =
  namespace\<close>.
\<close>

definition with_namespace :: "(string \<times> json) list \<Rightarrow> json \<Rightarrow> (string \<times> json) list" where
  "with_namespace params namespace =
     (if namespace \<noteq> JStr ''default'' then AList.update ''namespace'' namespace params
      else params)"

definition tools_call_payload :: "string \<Rightarrow> json \<Rightarrow> json" where
  "tools_call_payload tool args =
     JObj [(''jsonrpc'', JStr ''2.0''), (''method'', JStr ''tools/call''),
           (''params'', JObj [(''name'', JStr tool), (''arguments'', args)]),
           (''id'', JInt 1)]"

text \<open>
  The \<open>try\<close> block around \<open>client.post\<close> in the \<open>list\<close>/\<open>get\<close> and \<open>ping\<close> branches:
  its own \<open>except Exception\<close> turns every failure into a connection error string.
\<close>

definition k8s_tools_call :: "pylib \<Rightarrow> renv \<Rightarrow> string \<Rightarrow> json \<Rightarrow> rstate \<Rightarrow> outcome" where
  "k8s_tools_call L E tool args st =
     (let st1 = record_call ''kubernetes'' tool args st
      in case k8s_post E (tools_call_payload tool args) of
           Inl e \<Rightarrow>
             returns (''Error: Failed to connect to Kubernetes MCP server: '' @ exn_str e) st1
         | Inr (code, body) \<Rightarrow>
             if code = 200 then
               (case body of
                  Inl e \<Rightarrow>
                    returns (''Error: Failed to connect to Kubernetes MCP server: '' @ exn_str e) st1
                | Inr result \<Rightarrow> returns (json_dumps L result) st1)
             else returns (''Error: HTTP '' @ py_repr L (JInt (int code)) @
                           '' from Kubernetes MCP server'') st1)"

text \<open>
  The actions whose branch ends in \<open>client.call_method(...)\<close>. In the kubernetes branch
  the only binding of the name \<open>client\<close> is \<open>async with httpx.AsyncClient(timeout=5.0) as
  client\<close> of the health check, and an \<open>httpx.AsyncClient\<close> has no attribute
  \<open>call_method\<close>: the attribute lookup raises \<open>AttributeError\<close> before any request is made.
  Building \<open>params\<close> before it has no effect and cannot raise, except for
  \<open>int(cmd.get("replicas", 1))\<close> of the \<open>scale\<close> action.
\<close>

definition call_method_actions :: "string list" where
  "call_method_actions =
     [''describe'', ''delete'', ''scale'', ''restart'', ''logs'', ''exec'', ''create'',
      ''apply'', ''patch'', ''rollout'', ''context'', ''generic'', ''node_management'',
      ''install_helm'', ''upgrade_helm'', ''uninstall_helm'', ''explain'',
      ''list_api_resources'']"

definition no_call_method :: exn where
  "no_call_method = Exn ''AsyncClient object has no attribute call_method''"

definition route_kubernetes :: "pylib \<Rightarrow> renv \<Rightarrow> (string \<times> json) list \<Rightarrow> rstate \<Rightarrow> outcome" where
  "route_kubernetes L E cmd st =
     (let action = dict_get cmd ''action'';
          resource = dict_get cmd ''resource'';
          namespace = dict_get_default cmd ''namespace'' (JStr ''default'');
          st1 = st\<lparr>calls := calls st @ [Probe ''kubernetes'']\<rparr>
      in case k8s_health E of
           Inl e \<Rightarrow> returns (''Error: Kubernetes MCP server not accessible: '' @ exn_str e) st1
         | Inr code \<Rightarrow>
             if code \<noteq> 200 then
               returns (''Error: Kubernetes MCP server health check failed (status '' @
                        py_repr L (JInt (int code)) @ '')'') st1
             else
               (case kube_resource_of resource of
                  Inl e \<Rightarrow> raises e st1
                | Inr kube_resource \<Rightarrow>
                    if in_strs action [''list'', ''get''] then
                      k8s_tools_call L E ''kubectl_get''
                        (JObj (with_namespace [(''resourceType'', kube_resource)] namespace)) st1
                    else if action = JStr ''scale'' then
                      (case py_int L (dict_get_default cmd ''replicas'' (JInt 1)) of
                         Inl e \<Rightarrow> raises e st1
                       | Inr replicas \<Rightarrow> raises no_call_method st1)
                    else if in_strs action call_method_actions then raises no_call_method st1
                    else if action = JStr ''ping'' then
                      k8s_tools_call L E ''ping'' (JObj []) st1
                    else falls_through st1))"

subsection \<open>The prometheus branch\<close>

text \<open>\<open>action in available_tools\<close>, a dict.\<close>

definition in_dict :: "json \<Rightarrow> (string \<times> json) list \<Rightarrow> exn + bool" where
  "in_dict k d =
     (case k of
        JStr s \<Rightarrow> Inr (has_key d s)
      | JList _ \<Rightarrow> Inl (Exn ''unhashable type: list'')
      | JObj _ \<Rightarrow> Inl (Exn ''unhashable type: dict'')
      | _ \<Rightarrow> Inr False)"

text \<open>\<open>if cmd.get(k): params[p] = cmd.get(k)\<close>.\<close>

definition opt_param :: "(string \<times> json) list \<Rightarrow> string \<Rightarrow> string \<Rightarrow> (string \<times> json) list \<Rightarrow>
    (string \<times> json) list" where
  "opt_param cmd k p params =
     (if truthy (dict_get cmd k) then AList.update p (dict_get cmd k) params else params)"

definition prom_call :: "pylib \<Rightarrow> renv \<Rightarrow> string \<Rightarrow> json \<Rightarrow> rstate \<Rightarrow> outcome" where
  "prom_call L E tool args st =
     return_dumps L (prom_execute E tool args) (record_call ''prometheus'' tool args st)"

definition route_prometheus :: "pylib \<Rightarrow> renv \<Rightarrow> (string \<times> json) list \<Rightarrow> rstate \<Rightarrow> outcome" where
  "route_prometheus L E cmd st =
     (let action = dict_get cmd ''action'';
          query = dict_get cmd ''query''
      in case get_prometheus_mcp_client E st of
           (Inl e, st1) \<Rightarrow> raises e st1
         | (Inr _, st1) \<Rightarrow>
             if action = JStr ''query'' then
               (if \<not> truthy query then
                  returns ''Error: Missing required parameter 'query' for Prometheus query'' st1
                else prom_call L E ''execute_query'' (JObj [(''query'', query)]) st1)
             else if action = JStr ''health'' then prom_call L E ''health_check'' (JObj []) st1
             else if action = JStr ''list_metrics'' then
               prom_call L E ''list_metrics''
                 (JObj (opt_param cmd ''filter_pattern'' ''filter_pattern''
                          (opt_param cmd ''limit'' ''limit'' []))) st1
             else
               (case in_dict action (prom_tools E) of
                  Inl e \<Rightarrow> raises e st1
                | Inr True \<Rightarrow>
                    (case action of
                       JStr tool \<Rightarrow> prom_call L E tool (JObj cmd) st1
                     | _ \<Rightarrow> falls_through st1)
                | Inr False \<Rightarrow>
                    returns (''Error: Unsupported Prometheus action: '' @
                             py_str (py_repr L) action @ ''. Available actions: '' @
                             py_repr L (JList (map (\<lambda>kv. JStr (fst kv)) (prom_tools E)))) st1))"

subsection \<open>The grafana branch\<close>

definition server_not_accessible :: "string \<Rightarrow> string" where
  "server_not_accessible backend =
     ''Error: '' @ backend @
     '' MCP server is not accessible. Please check server configuration and connectivity.''"

text \<open>
  The nested \<open>isinstance\<close> tests that reach \<open>result["result"]["content"][0]["text"]\<close>:
  the text when every test passes.
\<close>

definition mcp_text :: "json \<Rightarrow> json option" where
  "mcp_text result =
     (case result of
        JObj r \<Rightarrow>
          (case map_of r ''result'' of
             Some (JObj mcp_result) \<Rightarrow>
               (case map_of mcp_result ''content'' of
                  Some (JList (first_content # _)) \<Rightarrow>
                    (case first_content of
                       JObj fc \<Rightarrow> map_of fc ''text''
                     | _ \<Rightarrow> None)
                | _ \<Rightarrow> None)
           | _ \<Rightarrow> None)
      | _ \<Rightarrow> None)"

text \<open>\<open>json.loads(x)\<close> of an arbitrary value, \<open>len(x)\<close>, and \<open>for d in x\<close>.\<close>

definition loads_value :: "pylib \<Rightarrow> json \<Rightarrow> exn + json" where
  "loads_value L x =
     (case x of
        JStr s \<Rightarrow> json_loads L s
      | _ \<Rightarrow> Inl (Exn ''the JSON object must be str, bytes or bytearray''))"

definition py_len :: "json \<Rightarrow> exn + nat" where
  "py_len x =
     (case x of
        JStr s \<Rightarrow> Inr (length s)
      | JList xs \<Rightarrow> Inr (length xs)
      | JObj d \<Rightarrow> Inr (length d)
      | _ \<Rightarrow> Inl (Exn ''object has no len()''))"

definition py_iter :: "json \<Rightarrow> exn + json list" where
  "py_iter x =
     (case x of
        JList xs \<Rightarrow> Inr xs
      | JObj d \<Rightarrow> Inr (map (\<lambda>kv. JStr (fst kv)) d)
      | JStr s \<Rightarrow> Inr (map (\<lambda>c. JStr [c]) s)
      | _ \<Rightarrow> Inl (Exn ''object is not iterable''))"

text \<open>The exceptions named by the inner \<open>except\<close> clauses of the grafana branch.\<close>

fun is_parse_error :: "exn \<Rightarrow> bool" where
  "is_parse_error (Exn m) = False"
| "is_parse_error (JSONDecodeError m) = True"
| "is_parse_error (KeyError m) = True"
| "is_parse_error (IndexError m) = True"

text \<open>
  \<open>list\<close> of dashboards or datasources: the decoded text of the response when it can be
  extracted, the raw response otherwise. Only the dashboards branch checks for an
  unavailable server and prints \<open>len(dashboard_data)\<close>.
\<close>

definition grafana_list :: "pylib \<Rightarrow> renv \<Rightarrow> string \<Rightarrow> bool \<Rightarrow> rstate \<Rightarrow> outcome" where
  "grafana_list L E tool dashboards st =
     (let st1 = record_call ''grafana'' tool (JObj []) st
      in case graf_execute E tool (JObj []) of
           Inl e \<Rightarrow> raises e st1
         | Inr result \<Rightarrow>
             if dashboards \<and> is_server_error (py_repr L) result then
               returns (server_not_accessible ''Grafana'') st1
             else
               (case mcp_text result of
                  None \<Rightarrow> returns (json_dumps L result) st1
                | Some text \<Rightarrow>
                    (case loads_value L text of
                       Inl e \<Rightarrow>
                         if is_parse_error e then returns (json_dumps L result) st1
                         else raises e st1
                     | Inr data \<Rightarrow>
                         if dashboards then
                           (case py_len data of
                              Inl e \<Rightarrow> raises e st1
                            | Inr _ \<Rightarrow> returns (json_dumps L data) st1)
                         else returns (json_dumps L data) st1)))"

text \<open>
  \<open>re.match(r'^[a-zA-Z0-9]+$', name)\<close>: one or more ASCII letters or digits, up to the end
  of the string or up to a line feed that ends the string (\<open>$\<close> matches before it).
\<close>

definition is_alnum :: "char \<Rightarrow> bool" where
  "is_alnum c =
     (c \<in> set ''abcdefghijklmnopqrstuvwxyzABCDEFGHIJKLMNOPQRSTUVWXYZ0123456789'')"

definition looks_like_uid :: "string \<Rightarrow> bool" where
  "looks_like_uid name =
     (let body = (if name \<noteq> [] \<and> last name = CHR 0x0A then butlast name else name)
      in body \<noteq> [] \<and> list_all is_alnum body)"

text \<open>
  The loop that looks for the first dashboard whose title contains the name, both in lower
  case. An element that is not a dict is skipped; a title that is not a string has no
  \<open>lower\<close>.
\<close>

fun find_dashboard :: "string \<Rightarrow> json list \<Rightarrow> exn + json option" where
  "find_dashboard name [] = Inr None"
| "find_dashboard name (dashboard # rest) =
     (case dashboard of
        JObj items \<Rightarrow>
          (case dict_get_default items ''title'' (JStr []) of
             JStr title \<Rightarrow>
               if py_in (py_lower name) (py_lower title) then Inr (Some dashboard)
               else find_dashboard name rest
           | _ \<Rightarrow> Inl (Exn ''object has no attribute lower''))
      | _ \<Rightarrow> find_dashboard name rest)"

text \<open>
  The inner \<open>try\<close> block of the name-based search (lines 502 to 529), given the response
  to \<open>list_dashboards\<close>; its \<open>except\<close> clause and the statement after it follow in
  \<open>grafana_get_by_name\<close>.
\<close>

definition search_dashboards :: "pylib \<Rightarrow> renv \<Rightarrow> string \<Rightarrow> json \<Rightarrow> rstate \<Rightarrow> outcome" where
  "search_dashboards L E name list_result st =
     (case mcp_text list_result of
        None \<Rightarrow> falls_through st
      | Some text \<Rightarrow>
          (case loads_value L text of
             Inl e \<Rightarrow> raises e st
           | Inr dashboard_data \<Rightarrow>
               (case py_iter dashboard_data of
                  Inl e \<Rightarrow> raises e st
                | Inr ds \<Rightarrow>
                    (case find_dashboard name ds of
                       Inl e \<Rightarrow> raises e st
                     | Inr None \<Rightarrow>
                         returns (''Error: No dashboard found with title containing ''
                                  @ [CHR 0x27] @ name @ [CHR 0x27]) st
                     | Inr (Some matching_dashboard) \<Rightarrow>
                         if truthy matching_dashboard then
                           (case obj_get matching_dashboard (JStr ''uid'') of
                              Inl e \<Rightarrow> raises e st
                            | Inr uid \<Rightarrow>
                                return_dumps L
                                  (graf_execute E ''get_dashboard'' (JObj [(''uid'', uid)]))
                                  (record_call ''grafana'' ''get_dashboard''
                                     (JObj [(''uid'', uid)]) st))
                         else
                           returns (''Error: No dashboard found with title containing ''
                                    @ [CHR 0x27] @ name @ [CHR 0x27]) st))))"

definition grafana_get_by_name :: "pylib \<Rightarrow> renv \<Rightarrow> string \<Rightarrow> rstate \<Rightarrow> outcome" where
  "grafana_get_by_name L E name st =
     (let st1 = record_call ''grafana'' ''list_dashboards'' (JObj []) st
      in case graf_execute E ''list_dashboards'' (JObj []) of
           Inl e \<Rightarrow> raises e st1
         | Inr list_result \<Rightarrow>
             if is_server_error (py_repr L) list_result then
               returns (server_not_accessible ''Grafana'') st1
             else
               (case search_dashboards L E name list_result st1 of
                  (Inl e, st2) \<Rightarrow>
                    if is_parse_error e then
                      returns (''Error: Failed to search dashboards by name: '' @ exn_str e) st2
                    else raises e st2
                | (Inr None, st2) \<Rightarrow>
                    returns ''Error: Could not retrieve dashboard list for name search'' st2
                | (Inr (Some s), st2) \<Rightarrow> returns s st2))"

definition grafana_get_by_uid :: "pylib \<Rightarrow> renv \<Rightarrow> string \<Rightarrow> rstate \<Rightarrow> outcome" where
  "grafana_get_by_uid L E name st =
     (let st1 = record_call ''grafana'' ''get_dashboard'' (JObj [(''uid'', JStr name)]) st
      in case graf_execute E ''get_dashboard'' (JObj [(''uid'', JStr name)]) of
           Inl e \<Rightarrow> raises e st1
         | Inr result \<Rightarrow>
             if is_server_error (py_repr L) result then
               returns (server_not_accessible ''Grafana'') st1
             else returns (json_dumps L result) st1)"

definition route_grafana :: "pylib \<Rightarrow> renv \<Rightarrow> (string \<times> json) list \<Rightarrow> rstate \<Rightarrow> outcome" where
  "route_grafana L E cmd st =
     (let action = dict_get cmd ''action'';
          resource = dict_get cmd ''resource'';
          name = dict_get cmd ''name''
      in case get_grafana_mcp_client E st of
           (Inl e, st1) \<Rightarrow> raises e st1
         | (Inr _, st1) \<Rightarrow>
             if action = JStr ''list'' then
               (if in_strs resource [''dashboards'', ''dashboard''] then
                  grafana_list L E ''list_dashboards'' True st1
                else if in_strs resource [''datasources'', ''datasource''] then
                  grafana_list L E ''list_datasources'' False st1
                else falls_through st1)
             else if action = JStr ''get'' then
               (if in_strs resource [''dashboards'', ''dashboard''] then
                  (case name of
                     JStr n \<Rightarrow>
                       if looks_like_uid n then grafana_get_by_uid L E n st1
                       else grafana_get_by_name L E n st1
                   | _ \<Rightarrow> raises (Exn ''expected string or bytes-like object'') st1)
                else falls_through st1)
             else falls_through st1)"

subsection \<open>The vmware branch\<close>

definition esxi_method :: "pylib \<Rightarrow> renv \<Rightarrow> string \<Rightarrow> json \<Rightarrow> rstate \<Rightarrow> outcome" where
  "esxi_method L E method args st =
     return_dumps L (esxi_call E method args) (record_call ''vmware'' method args st)"

definition vm_gap_message :: string where
  "vm_gap_message =
     ''Error: VMware MCP server does not support detailed VM info/status operations. '' @
     ''Available operations: list, create, clone, power_on, power_off, delete.''"

text \<open>\<open>if v is not None: params[k] = v\<close>.\<close>

definition opt_not_none :: "string \<Rightarrow> json \<Rightarrow> (string \<times> json) list \<Rightarrow> (string \<times> json) list" where
  "opt_not_none k v params = (if v \<noteq> JNull then AList.update k v params else params)"

definition route_vmware :: "pylib \<Rightarrow> renv \<Rightarrow> (string \<times> json) list \<Rightarrow> rstate \<Rightarrow> outcome" where
  "route_vmware L E cmd st =
     (let action = dict_get cmd ''action'';
          resource = dict_get cmd ''resource'';
          name = dict_get cmd ''name''
      in case get_esxi_mcp_client E st of
           (Inl e, st1) \<Rightarrow> raises e st1
         | (Inr _, st1) \<Rightarrow>
             if action = JStr ''list'' then
               (if in_strs resource [''vms'', ''vm''] then
                  (let st2 = record_call ''vmware'' ''listVMs'' (JObj []) st1
                   in case esxi_call E ''listVMs'' (JObj []) of
                        Inl e \<Rightarrow> raises e st2
                      | Inr result \<Rightarrow>
                          if is_server_error (py_repr L) result then
                            returns (server_not_accessible ''VMware'') st2
                          else returns (json_dumps L result) st2)
                else falls_through st1)
             else if in_strs action [''get'', ''status'', ''info''] then
               (if in_strs resource [''vms'', ''vm''] then returns vm_gap_message st1
                else falls_through st1)
             else if action = JStr ''create'' then
               esxi_method L E ''createVM''
                 (JObj (opt_not_none ''network'' (dict_get cmd ''network'')
                         (opt_not_none ''datastore'' (dict_get cmd ''datastore'')
                            [(''name'', name),
                             (''cpu'', dict_get_default cmd ''cpu'' (JInt 2)),
                             (''memory'', dict_get_default cmd ''memory'' (JInt 4096))]))) st1
             else if action = JStr ''clone'' then
               esxi_method L E ''cloneVM''
                 (JObj [(''template_name'', dict_get_default cmd ''template_name'' name),
                        (''new_name'',
                         dict_get_default cmd ''new_name'' (dict_get cmd ''target_name''))]) st1
             else if action = JStr ''power_on'' then
               esxi_method L E ''powerOn'' (JObj [(''name'', name)]) st1
             else if action = JStr ''power_off'' then
               esxi_method L E ''powerOff'' (JObj [(''name'', name)]) st1
             else if action = JStr ''delete'' then
               esxi_method L E ''deleteVM'' (JObj [(''name'', name)]) st1
             else if action = JStr ''get_stats'' then
               returns (json_dumps L
                 (JObj [(''vm_name'', name), (''cpu_usage_mhz'', JInt 2048),
                        (''memory_usage_mb'', JInt 2048), (''storage_usage_gb'', JInt 25),
                        (''network_rx_mbps'', JInt 150), (''network_tx_mbps'', JInt 85)])) st1
             else if action = JStr ''snapshots'' then
               (if in_strs resource [''vms'', ''vm''] then
                  esxi_method L E ''get_vm_snapshots'' (JObj [(''vm_name'', name)]) st1
                else falls_through st1)
             else if action = JStr ''create_snapshot'' then
               esxi_method L E ''create_snapshot''
                 (JObj (if truthy (dict_get cmd ''description'')
                        then [(''vm_name'', name),
                              (''snapshot_name'', dict_get cmd ''snapshot_name''),
                              (''description'', dict_get cmd ''description'')]
                        else [(''vm_name'', name),
                              (''snapshot_name'', dict_get cmd ''snapshot_name'')])) st1
             else falls_through st1)"

subsection \<open>The network branch and the router\<close>

definition route_network :: "pylib \<Rightarrow> renv \<Rightarrow> (string \<times> json) list \<Rightarrow> rstate \<Rightarrow> outcome" where
  "route_network L E cmd st =
     (if dict_get cmd ''action'' = JStr ''scan'' then
        (let subnet = dict_get_default cmd ''subnet'' (JStr ''192.168.1.0/24'');
             st1 = record_call ''network'' ''network_discovery'' (JObj [(''subnet'', subnet)]) st
         in case net_discovery E subnet of
              Inl e \<Rightarrow> raises e st1
            | Inr s \<Rightarrow> returns s st1)
      else falls_through st)"

text \<open>The \<open>try\<close> block of \<open>route_infra_command\<close>, with the fallback at its end.\<close>

definition route_body :: "pylib \<Rightarrow> renv \<Rightarrow> (string \<times> json) list \<Rightarrow> rstate \<Rightarrow> (exn + string) \<times> rstate" where
  "route_body L E cmd st =
     (let domain = dict_get cmd ''domain'';
          branch =
            (if domain = JStr ''kubernetes'' then route_kubernetes L E cmd st
             else if domain = JStr ''prometheus'' then route_prometheus L E cmd st
             else if domain = JStr ''grafana'' then route_grafana L E cmd st
             else if domain = JStr ''vmware'' then route_vmware L E cmd st
             else if domain = JStr ''network'' then route_network L E cmd st
             else falls_through st)
      in case branch of
           (Inl e, st') \<Rightarrow> (Inl e, st')
         | (Inr (Some s), st') \<Rightarrow> (Inr s, st')
         | (Inr None, st') \<Rightarrow> (Inr (''Command not supported: '' @ py_repr L (JObj cmd)), st'))"

text \<open>
  \<open>route_infra_command\<close>: the \<open>except Exception\<close> clause turns an exception of the
  \<open>try\<close> block into a string. The result is written as a sum so that the absence of an
  escaping exception is a statement about the function.
\<close>

definition route_infra_command ::
  "pylib \<Rightarrow> renv \<Rightarrow> (string \<times> json) list \<Rightarrow> rstate \<Rightarrow> (exn + string) \<times> rstate" where
  "route_infra_command L E cmd st =
     (case route_body L E cmd st of
        (Inl e, st') \<Rightarrow> (Inr (''Error executing command: '' @ exn_str e), st')
      | (Inr s, st') \<Rightarrow> (Inr s, st'))"

text \<open>
  The tool \<open>infra_command\<close>: every parameter the caller leaves out is \<open>None\<close> and is passed
  on under its key. (Its test \<open>result is None\<close> never holds, the router returns a string.)
\<close>

definition infra_command ::
  "pylib \<Rightarrow> renv \<Rightarrow> json \<Rightarrow> json \<Rightarrow> json \<Rightarrow> json \<Rightarrow> json \<Rightarrow> json \<Rightarrow> rstate \<Rightarrow>
   (exn + string) \<times> rstate" where
  "infra_command L E domain action resource name namespace query st =
     route_infra_command L E
       [(''domain'', domain), (''action'', action), (''resource'', resource),
        (''name'', name), (''namespace'', namespace), (''query'', query)] st"


text \<open>
  Example surroundings: every backend up (\<open>ex_env\<close>) or down (\<open>ex_env_down\<close>), and a
  fresh process in which no client is cached yet. Grafana lists one dashboard, "Node
  Exporter Full" with uid "abc123".
\<close>

definition ex_k8s_post :: "json \<Rightarrow> exn + nat \<times> (exn + json)" where
  "ex_k8s_post payload = Inr (200, Inr (JObj [(''result'', JStr ''ok'')]))"

definition ex_backend :: "string \<Rightarrow> json \<Rightarrow> exn + json" where
  "ex_backend tool args = Inr (JObj [(''result'', JStr ''ok'')])"

definition ex_grafana :: "string \<Rightarrow> json \<Rightarrow> exn + json" where
  "ex_grafana tool args =
     (if tool = ''list_dashboards'' then
        Inr (JObj [(''result'',
               JObj [(''content'',
                 JList [JObj [(''type'', JStr ''text''),
                   (''text'',
                    JStr ''[{\"title\": \"Node Exporter Full\", \"uid\": \"abc123\"}]'')]])])])
      else Inr (JObj [(''result'', args)]))"

definition ex_discovery :: "json \<Rightarrow> exn + string" where
  "ex_discovery subnet = Inr ''[]''"

definition ex_env :: renv where
  "ex_env =
     \<lparr>k8s_health = Inr 200, k8s_post = ex_k8s_post,
      prom_start = True,
      prom_tools = [(''execute_query'', JObj []), (''health_check'', JObj []),
                    (''list_metrics'', JObj [])],
      prom_execute = ex_backend,
      graf_start = True, graf_execute = ex_grafana,
      esxi_start = True, esxi_call = ex_backend,
      net_discovery = ex_discovery\<rparr>"

definition ex_env_down :: renv where
  "ex_env_down =
     ex_env\<lparr>k8s_health := Inl (Exn ''connection refused''), prom_start := False,
            graf_start := False, esxi_start := False\<rparr>"

definition fresh_rstate :: rstate where
  "fresh_rstate = \<lparr>prom_client = False, graf_client = False, esxi_client = False, calls = []\<rparr>"

text \<open>The tool calls among the requests of a trace.\<close>

fun is_tool_call :: "backend_call \<Rightarrow> bool" where
  "is_tool_call (Probe backend) = False"
| "is_tool_call (ToolCall backend tool args) = True"

definition tool_calls_of :: "rstate \<Rightarrow> backend_call list" where
  "tool_calls_of st = filter is_tool_call (calls st)"

text \<open>Example commands.\<close>

definition ex_cmd_vm_get :: "(string \<times> json) list" where
  "ex_cmd_vm_get =
     [(''domain'', JStr ''vmware''), (''action'', JStr ''get''), (''resource'', JStr ''vm'')]"






definition ex_cmd_dashboard :: "string \<Rightarrow> (string \<times> json) list" where
  "ex_cmd_dashboard name =
     [(''domain'', JStr ''grafana''), (''action'', JStr ''get''),
      (''resource'', JStr ''dashboard''), (''name'', JStr name)]"





section \<open>Verify stage (\<open>verification_node\<close> in \<open>app/core/engine.py\<close>)\<close>

subsection \<open>The regular expressions\<close>

text \<open>
  The seven patterns of \<open>verification_node\<close> are sequences of five kinds of item: a literal
  text, \<open>\s*\<close> (greedy), \<open>[\s\S]*?\<close> (any characters, lazy), and the opening and closing
  parenthesis of the one capture group. \<open>rx_match\<close> is the backtracking matcher of
  \<open>re\<close> on such a sequence, anchored at the current position: a greedy item tries the longest
  extent first, a lazy item the shortest, and the first alternative that lets the rest of
  the pattern match is taken. It returns the start and the end of the group.
\<close>

datatype rx = Lit string | Ws | Lazy | Open | Close

text \<open>\<open>\s\<close> on the code points 0 to 255.\<close>

definition is_space :: "char \<Rightarrow> bool" where
  "is_space c =
     (c \<in> set [CHR 0x09, CHR 0x0A, CHR 0x0B, CHR 0x0C, CHR 0x0D, CHR 0x1C, CHR 0x1D, CHR 0x1E,
                CHR 0x1F, CHR 0x20, CHR 0x85, CHR 0xA0])"

function rx_match :: "rx list \<Rightarrow> string \<Rightarrow> nat \<Rightarrow> nat \<Rightarrow> nat \<Rightarrow> (nat \<times> nat) option" where
  "rx_match [] inp pos gs ge = Some (gs, ge)"
| "rx_match (Lit s # r) inp pos gs ge =
     (if starts_with s inp then rx_match r (drop (length s) inp) (pos + length s) gs ge
      else None)"
| "rx_match (Ws # r) [] pos gs ge = rx_match r [] pos gs ge"
| "rx_match (Ws # r) (c # cs) pos gs ge =
     (if is_space c then
        (case rx_match (Ws # r) cs (Suc pos) gs ge of
           Some g \<Rightarrow> Some g
         | None \<Rightarrow> rx_match r (c # cs) pos gs ge)
      else rx_match r (c # cs) pos gs ge)"
| "rx_match (Lazy # r) [] pos gs ge = rx_match r [] pos gs ge"
| "rx_match (Lazy # r) (c # cs) pos gs ge =
     (case rx_match r (c # cs) pos gs ge of
        Some g \<Rightarrow> Some g
      | None \<Rightarrow> rx_match (Lazy # r) cs (Suc pos) gs ge)"
| "rx_match (Open # r) inp pos gs ge = rx_match r inp pos pos ge"
| "rx_match (Close # r) inp pos gs ge = rx_match r inp pos gs pos"
  by pat_completeness auto
termination
  by (relation "measure (\<lambda>(r, inp, pos, gs, ge). length r + length inp)") auto

text \<open>The items other than the parentheses of the group.\<close>

fun plain_item :: "rx \<Rightarrow> bool" where
  "plain_item Open = False"
| "plain_item Close = False"
| "plain_item x = True"

text \<open>\<open>re.search\<close>: the match at the leftmost position that has one; its group 1.\<close>

fun rx_search :: "rx list \<Rightarrow> string \<Rightarrow> nat \<Rightarrow> (nat \<times> nat) option" where
  "rx_search r [] pos = rx_match r [] pos 0 0"
| "rx_search r (c # cs) pos =
     (case rx_match r (c # cs) pos 0 0 of
        Some g \<Rightarrow> Some g
      | None \<Rightarrow> rx_search r cs (Suc pos))"

definition search_group :: "rx list \<Rightarrow> string \<Rightarrow> string option" where
  "search_group r content =
     (case rx_search r content 0 of
        None \<Rightarrow> None
      | Some (gs, ge) \<Rightarrow> Some (take (ge - gs) (drop gs content)))"

definition fenced_json_pattern :: "rx list" where
  "fenced_json_pattern =
     [Lit ''```'', Ws, Lit ''json'', Ws, Open, Lit ''{'', Lazy, Lit ''}'', Close, Ws, Lit ''```'']"

definition fenced_pattern :: "rx list" where
  "fenced_pattern = [Lit ''```'', Ws, Open, Lit ''{'', Lazy, Lit ''}'', Close, Ws, Lit ''```'']"

definition tool_calls_pattern :: "rx list" where
  "tool_calls_pattern =
     [Open, Lit ''{'', Lazy, Lit ''\"tool_calls\"'', Ws, Lit '':'', Ws, Lit ''['', Lazy,
      Lit '']'', Close]"

definition domain_pattern :: "string \<Rightarrow> rx list" where
  "domain_pattern d =
     [Open, Lit ''{'', Lazy, Lit ''\"domain\"'', Ws, Lit '':'', Ws,
      Lit ([CHR 0x22] @ d @ [CHR 0x22]), Lazy, Lit ''}'', Close]"

definition patterns :: "rx list list" where
  "patterns =
     [fenced_json_pattern, fenced_pattern, tool_calls_pattern,
      domain_pattern ''kubernetes'', domain_pattern ''prometheus'',
      domain_pattern ''grafana'', domain_pattern ''vmware'']"

text \<open>The loop over the patterns: group 1 of the first pattern that matches.\<close>

fun code_match :: "rx list list \<Rightarrow> string \<Rightarrow> string option" where
  "code_match [] content = None"
| "code_match (p # ps) content =
     (case search_group p content of
        Some g \<Rightarrow> Some g
      | None \<Rightarrow> code_match ps content)"

subsection \<open>Messages and the node\<close>

record tool_call =
  tc_id :: string
  tc_name :: json
  tc_arguments :: string

datatype message =
    HumanMessage string
  | AIMessage string "tool_call list"
  | ToolMessage string

record agent_state =
  messages :: "message list"
  session_id :: string
  current_task :: string

text \<open>
  The loop over \<open>tool_call_data["tool_calls"]\<close>: \<open>tool_call["name"]\<close> needs a dict with
  that key.
\<close>

fun convert_tool_calls :: "pylib \<Rightarrow> nat \<Rightarrow> json list \<Rightarrow> exn + tool_call list" where
  "convert_tool_calls L i [] = Inr []"
| "convert_tool_calls L i (tc # rest) =
     (case tc of
        JObj d \<Rightarrow>
          (case map_of d ''name'' of
             None \<Rightarrow> Inl (KeyError ''name'')
           | Some nm \<Rightarrow>
               (case convert_tool_calls L (Suc i) rest of
                  Inl e \<Rightarrow> Inl e
                | Inr others \<Rightarrow>
                    Inr (\<lparr>tc_id = ''call_'' @ py_repr L (JInt (int (Suc i))), tc_name = nm,
                          tc_arguments = json_dumps L (dict_get_default d ''arguments'' (JObj []))\<rparr>
                         # others)))
      | _ \<Rightarrow> Inl (Exn ''indices must be integers''))"

text \<open>
  The direct \<open>{domain, action, ...}\<close> format: the arguments of the synthesized call.
\<close>

definition grafana_name :: "(string \<times> json) list \<Rightarrow> (string \<times> json) list \<Rightarrow> (string \<times> json) list" where
  "grafana_name d arguments =
     (if dict_get d ''domain'' = JStr ''grafana'' \<and> dict_get d ''action'' = JStr ''get'' then
        (if has_key d ''uid'' then AList.update ''name'' (dict_get d ''uid'') arguments
         else if has_key d ''title'' then AList.update ''name'' (dict_get d ''title'') arguments
         else
           (case dict_get d ''params'' of
              JObj params \<Rightarrow>
                if params = [] then arguments
                else if has_key params ''uid'' then
                  AList.update ''name'' (dict_get params ''uid'') arguments
                else if has_key params ''title'' then
                  AList.update ''name'' (dict_get params ''title'') arguments
                else arguments
            | _ \<Rightarrow> arguments))
      else arguments)"

fun standard_fields :: "string list \<Rightarrow> (string \<times> json) list \<Rightarrow> (string \<times> json) list \<Rightarrow>
    (string \<times> json) list" where
  "standard_fields [] d arguments = arguments"
| "standard_fields (key # keys) d arguments =
     standard_fields keys d
       (if \<not> has_key arguments key \<and> dict_get d key \<noteq> JNull
        then AList.update key (dict_get d key) arguments
        else arguments)"

fun extra_fields :: "(string \<times> json) list \<Rightarrow> (string \<times> json) list \<Rightarrow> (string \<times> json) list" where
  "extra_fields [] arguments = arguments"
| "extra_fields ((k, v) # rest) arguments =
     extra_fields rest
       (if k \<notin> set [''domain'', ''action'', ''resource'', ''name'', ''namespace'', ''query'']
           \<and> v \<noteq> JNull
        then AList.update k v arguments
        else arguments)"

definition direct_arguments :: "(string \<times> json) list \<Rightarrow> (string \<times> json) list" where
  "direct_arguments d =
     extra_fields d
       (standard_fields [''name'', ''namespace'', ''query''] d
          (grafana_name d
             [(''domain'', dict_get d ''domain''), (''action'', dict_get d ''action''),
              (''resource'', dict_get d ''resource'')]))"

text \<open>
  The \<open>try\<close> block of \<open>verification_node\<close> once a pattern has matched: the tool calls to
  forward, nothing to forward, or an exception (which the node catches). Only a dict can
  take either branch; the captured text starts with \<open>{\<close>, and for any other decoded value
  the tests raise or fail.
\<close>

definition extract_tool_calls :: "pylib \<Rightarrow> string \<Rightarrow> exn + tool_call list option" where
  "extract_tool_calls L json_content =
     (case json_loads L json_content of
        Inl e \<Rightarrow> Inl e
      | Inr tool_call_data \<Rightarrow>
          (case tool_call_data of
             JObj d \<Rightarrow>
               (case map_of d ''tool_calls'' of
                  Some (JList tcs) \<Rightarrow>
                    (case convert_tool_calls L 0 tcs of
                       Inl e \<Rightarrow> Inl e
                     | Inr tool_calls \<Rightarrow> Inr (Some tool_calls))
                | _ \<Rightarrow>
                    if has_key d ''domain'' \<and> has_key d ''action'' then
                      Inr (Some [\<lparr>tc_id = ''call_1'', tc_name = JStr ''infra_command'',
                                  tc_arguments = json_dumps L (JObj (direct_arguments d))\<rparr>])
                    else Inr None)
           | _ \<Rightarrow> Inr None))"

definition verification_node :: "pylib \<Rightarrow> agent_state \<Rightarrow> agent_state" where
  "verification_node L state =
     (if messages state = [] then state
      else
        (case last (messages state) of
           AIMessage content kwargs \<Rightarrow>
             (case code_match patterns content of
                None \<Rightarrow> state
              | Some json_content \<Rightarrow>
                  (case extract_tool_calls L json_content of
                     Inr (Some tool_calls) \<Rightarrow> state\<lparr>messages := [AIMessage [] tool_calls]\<rparr>
                   | _ \<Rightarrow> state))
         | _ \<Rightarrow> state))"

text \<open>
  A command descriptor encoded as a \<open>tool_calls\<close> JSON object, bare and inside a fenced
  block, and an example descriptor.
\<close>

definition tool_calls_json :: "pylib \<Rightarrow> (string \<times> json) list \<Rightarrow> string" where
  "tool_calls_json L descriptor =
     json_dumps L
       (JObj [(''tool_calls'',
               JList [JObj [(''name'', JStr ''infra_command''),
                            (''arguments'', JObj descriptor)]])])"

definition fenced :: "string \<Rightarrow> string" where
  "fenced txt = ''```json'' @ [CHR 0x0A] @ txt @ [CHR 0x0A] @ ''```''"

definition ex_descriptor :: "(string \<times> json) list" where
  "ex_descriptor =
     [(''domain'', JStr ''kubernetes''), (''action'', JStr ''describe''),
      (''resource'', JStr ''pod''), (''name'', JStr ''web-1'')]"

definition ai_state :: "string \<Rightarrow> agent_state" where
  "ai_state content =
     \<lparr>messages = [HumanMessage ''describe the web-1 pod'', AIMessage content []],
      session_id = ''s1'', current_task = ''chat-with-infra''\<rparr>"



section \<open>Properties of the response classification\<close>

lemma is_server_error_dict:
  "is_server_error r (JObj d) \<longleftrightarrow>
     dict_get d ''status'' = JStr ''error'' \<and> contains_marker (error_msg r d)"
  by (simp add: is_server_error_def contains_marker_def server_error_markers_def Let_def)

lemma is_server_error_not_dict:
  "(\<forall>d. response \<noteq> JObj d) \<Longrightarrow> \<not> is_server_error r response"
  by (cases response) (simp_all add: is_server_error_def)

lemma not_contains_marker_empty: "\<not> contains_marker []"
  by (simp add: contains_marker_def server_error_markers_def)

lemma error_msg_falsy:
  "\<not> truthy (dict_get_default d ''error'' (JStr [])) \<Longrightarrow> error_msg r d = []"
  by (simp add: error_msg_def Let_def)

text \<open>
  Claim C10. \<open>is_server_error\<close> returns \<open>False\<close> for every input that is not a dict, and
  for every dict whose \<open>"error"\<close> field is absent, \<open>None\<close> or empty (the empty string,
  list or dict), whatever its \<open>"status"\<close> field is: only a response that carries non-empty
  error text can be classified as a server-unavailability error.
\<close>

theorem is_server_error_needs_error_text:
  "((\<forall>d. response \<noteq> JObj d) \<longrightarrow> \<not> is_server_error r response) \<and>
   (map_of d ''error'' \<in> {None, Some JNull, Some (JStr []), Some (JList []), Some (JObj [])}
      \<longrightarrow> \<not> is_server_error r (JObj d))"
proof (intro conjI impI)
  assume "\<forall>d. response \<noteq> JObj d"
  then show "\<not> is_server_error r response"
    by (rule is_server_error_not_dict)
next
  assume "map_of d ''error'' \<in> {None, Some JNull, Some (JStr []), Some (JList []), Some (JObj [])}"
  then have "\<not> truthy (dict_get_default d ''error'' (JStr []))"
    by (auto simp: dict_get_default_def)
  then have "error_msg r d = []"
    by (rule error_msg_falsy)
  then show "\<not> is_server_error r (JObj d)"
    by (simp add: is_server_error_dict not_contains_marker_empty)
qed

theorem is_server_error_needs_error_text_witness:
  "\<not> is_server_error repr_json (JStr ''connection refused'') \<and>
   \<not> is_server_error repr_json (JObj [(''status'', JStr ''error'')]) \<and>
   \<not> is_server_error repr_json (JObj [(''status'', JStr ''error''), (''error'', JNull)]) \<and>
   \<not> is_server_error repr_json (JObj [(''status'', JStr ''error''), (''error'', JStr [])])"
  using is_server_error_needs_error_text
          [of "JStr ''connection refused''" repr_json "[(''status'', JStr ''error'')]"]
        is_server_error_needs_error_text
          [of JNull repr_json "[(''status'', JStr ''error''), (''error'', JNull)]"]
        is_server_error_needs_error_text
          [of JNull repr_json "[(''status'', JStr ''error''), (''error'', JStr [])]"]
  by simp

text \<open>
  Claim C3, as amended. A response is classified as a server-unavailability error exactly
  when it is a dict whose \<open>"status"\<close> field equals \<open>"error"\<close> and whose error text, converted
  to a string and to lower case (and taken as empty when the \<open>"error"\<close> field is falsy),
  contains one of the seven fixed substrings. \<open>{status: "error", error: "connection refused"}\<close>
  is classified so and \<open>{status: "error", error: "invalid argument"}\<close> is not.
\<close>

theorem is_server_error_iff:
  "(is_server_error r response \<longleftrightarrow>
      (\<exists>d. response = JObj d \<and> dict_get d ''status'' = JStr ''error'' \<and>
           contains_marker (error_msg r d))) \<and>
   is_server_error r
     (JObj [(''status'', JStr ''error''), (''error'', JStr ''connection refused'')]) \<and>
   \<not> is_server_error r
     (JObj [(''status'', JStr ''error''), (''error'', JStr ''invalid argument'')])"
proof (intro conjI)
  show "is_server_error r response \<longleftrightarrow>
      (\<exists>d. response = JObj d \<and> dict_get d ''status'' = JStr ''error'' \<and>
           contains_marker (error_msg r d))"
  proof (cases response)
    case (JObj d)
    then show ?thesis by (simp add: is_server_error_dict)
  qed (simp_all add: is_server_error_def)
next
  show "is_server_error r
     (JObj [(''status'', JStr ''error''), (''error'', JStr ''connection refused'')])"
    by (simp add: is_server_error_def error_msg_def dict_get_def dict_get_default_def
        py_str_def py_lower_def lower_char_def starts_with_def)
next
  show "\<not> is_server_error r
     (JObj [(''status'', JStr ''error''), (''error'', JStr ''invalid argument'')])"
    by (simp add: is_server_error_def error_msg_def dict_get_def dict_get_default_def
        py_str_def py_lower_def lower_char_def starts_with_def)
qed

text \<open>
  The claim as worded compares the error text itself with the substrings. The code lowers
  the text first: \<open>{status: "error", error: "HTTP 500"}\<close> is classified as a
  server-unavailability error although \<open>"HTTP 500"\<close> contains none of the seven substrings.
\<close>

theorem is_server_error_case_counterexample:
  "is_server_error repr_json (JObj [(''status'', JStr ''error''), (''error'', JStr ''HTTP 500'')]) \<and>
   error_text repr_json [(''status'', JStr ''error''), (''error'', JStr ''HTTP 500'')] = ''HTTP 500'' \<and>
   \<not> contains_marker ''HTTP 500''"
  by (simp add: is_server_error_def error_msg_def dict_get_def dict_get_default_def
      py_str_def py_lower_def lower_char_def starts_with_def error_text_def
      contains_marker_def server_error_markers_def)

section \<open>Properties of the alert evaluator\<close>

lemmas py_defs =
  dict_get_def dict_get_default_def has_key_def obj_get_def obj_get_default_def
  starts_with_def py_index_def py_split_def

lemmas evaluator_defs =
  evaluate_alert_def entry_labels_def entry_annotations_def match_condition_def
  prepare_action_def interpolate_params_def interpolate_value_def

lemma eval_policies_Some:
  "eval_policies ps l a st = Inr (Some act) \<Longrightarrow>
   \<exists>ps1 pol ps2. ps = ps1 @ pol # ps2 \<and>
     (\<forall>q \<in> set ps1. match_condition (p_condition q) l a st = Inr False) \<and>
     match_condition (p_condition pol) l a st = Inr True \<and>
     prepare_action pol l a = Inr act"
proof (induction ps)
  case Nil
  then show ?case by simp
next
  case (Cons p ps)
  show ?case
  proof (cases "match_condition (p_condition p) l a st")
    case (Inl e)
    with Cons.prems show ?thesis by simp
  next
    case (Inr b)
    show ?thesis
    proof (cases b)
      case True
      with Inr Cons.prems have "prepare_action p l a = Inr act"
        by (simp split: sum.splits)
      with Inr True have "p # ps = [] @ p # ps \<and>
          (\<forall>q \<in> set []. match_condition (p_condition q) l a st = Inr False) \<and>
          match_condition (p_condition p) l a st = Inr True \<and>
          prepare_action p l a = Inr act"
        by simp
      then show ?thesis by blast
    next
      case False
      with Inr Cons.prems have "eval_policies ps l a st = Inr (Some act)"
        by simp
      from Cons.IH [OF this] obtain ps1 pol ps2 where
        h: "ps = ps1 @ pol # ps2"
           "\<forall>q \<in> set ps1. match_condition (p_condition q) l a st = Inr False"
           "match_condition (p_condition pol) l a st = Inr True"
           "prepare_action pol l a = Inr act"
        by blast
      from h Inr False have "p # ps = (p # ps1) @ pol # ps2 \<and>
          (\<forall>q \<in> set (p # ps1). match_condition (p_condition q) l a st = Inr False) \<and>
          match_condition (p_condition pol) l a st = Inr True \<and>
          prepare_action pol l a = Inr act"
        by simp
      then show ?thesis by blast
    qed
  qed
qed

lemma eval_policies_None:
  "eval_policies ps l a st = Inr None \<Longrightarrow>
   \<forall>q \<in> set ps. match_condition (p_condition q) l a st = Inr False"
  by (induction ps) (auto split: sum.splits bool.splits if_splits)

lemma eval_policies_all_rejected:
  "\<forall>q \<in> set ps. match_condition (p_condition q) l a st = Inr False \<Longrightarrow>
   eval_policies ps l a st = Inr None"
  by (induction ps) auto

lemma eval_policies_first:
  "\<forall>q \<in> set ps1. match_condition (p_condition q) l a st = Inr False \<Longrightarrow>
   match_condition (p_condition pol) l a st = Inr True \<Longrightarrow>
   eval_policies (ps1 @ pol # ps2) l a st =
     (case prepare_action pol l a of Inl e \<Rightarrow> Inl e | Inr act \<Rightarrow> Inr (Some act))"
  by (induction ps1) auto

lemma entry_readable_get:
  "entry_readable it \<Longrightarrow>
   \<exists>v. obj_get_default (entry_labels it) (JStr ''alertname'') (JStr ''unknown'') = Inr v"
  by (cases "entry_labels it") (simp_all add: entry_readable_def obj_get_default_def)

lemma entry_get_readable:
  "obj_get_default (entry_labels it) (JStr ''alertname'') (JStr ''unknown'') = Inr v \<Longrightarrow>
   entry_readable it"
  by (cases "entry_labels it") (simp_all add: entry_readable_def obj_get_default_def)

lemma eval_entries_all_rejected:
  "\<forall>it \<in> set items. entry_readable it \<and> (\<forall>q \<in> set P. entry_rejects st it q) \<Longrightarrow>
   eval_entries P st items = Inr None"
proof (induction items)
  case Nil
  then show ?case by simp
next
  case (Cons it items)
  then have r: "entry_readable it"
    and rej: "\<forall>q \<in> set P. match_condition (p_condition q) (entry_labels it)
                 (entry_annotations it) st = Inr False"
    by (simp_all add: entry_rejects_def)
  from entry_readable_get [OF r] obtain v where
    "obj_get_default (entry_labels it) (JStr ''alertname'') (JStr ''unknown'') = Inr v" ..
  moreover from eval_policies_all_rejected [OF rej]
  have "eval_policies P (entry_labels it) (entry_annotations it) st = Inr None" .
  moreover from Cons have "eval_entries P st items = Inr None" by simp
  ultimately show ?case by simp
qed

lemma eval_entries_first:
  assumes "\<forall>it \<in> set before. entry_readable it \<and> (\<forall>q \<in> set P. entry_rejects st it q)"
    and "entry_readable item"
    and "eval_policies P (entry_labels item) (entry_annotations item) st = res"
    and "res \<noteq> Inr None"
  shows "eval_entries P st (before @ item # after) = res"
  using assms(1)
proof (induction before)
  case Nil
  from entry_readable_get [OF assms(2)] obtain v where
    "obj_get_default (entry_labels item) (JStr ''alertname'') (JStr ''unknown'') = Inr v" ..
  with assms(3,4) show ?case
    by (cases res) (auto split: option.splits)
next
  case (Cons it before)
  then have r: "entry_readable it"
    and rej: "\<forall>q \<in> set P. match_condition (p_condition q) (entry_labels it)
                 (entry_annotations it) st = Inr False"
    by (simp_all add: entry_rejects_def)
  from entry_readable_get [OF r] obtain v where
    "obj_get_default (entry_labels it) (JStr ''alertname'') (JStr ''unknown'') = Inr v" ..
  moreover from eval_policies_all_rejected [OF rej]
  have "eval_policies P (entry_labels it) (entry_annotations it) st = Inr None" .
  moreover from Cons have "eval_entries P st (before @ item # after) = res" by simp
  ultimately show ?case by simp
qed

lemma eval_entries_None:
  "eval_entries P st items = Inr None \<Longrightarrow>
   \<forall>it \<in> set items. entry_readable it \<and> (\<forall>q \<in> set P. entry_rejects st it q)"
proof (induction items)
  case Nil
  then show ?case by simp
next
  case (Cons it items)
  from Cons.prems obtain v where
    g: "obj_get_default (entry_labels it) (JStr ''alertname'') (JStr ''unknown'') = Inr v"
    by (auto split: sum.splits)
  with Cons.prems have
    p: "eval_policies P (entry_labels it) (entry_annotations it) st = Inr None"
    and rest: "eval_entries P st items = Inr None"
    by (auto split: sum.splits option.splits)
  from eval_policies_None [OF p] have "\<forall>q \<in> set P. entry_rejects st it q"
    by (simp add: entry_rejects_def)
  with entry_get_readable [OF g] Cons.IH [OF rest] show ?case by simp
qed

lemma eval_entries_Some:
  "eval_entries P st items = Inr (Some act) \<Longrightarrow>
   \<exists>before item after. items = before @ item # after \<and>
     (\<forall>it \<in> set before. entry_readable it \<and> (\<forall>q \<in> set P. entry_rejects st it q)) \<and>
     entry_readable item \<and>
     eval_policies P (entry_labels item) (entry_annotations item) st = Inr (Some act)"
proof (induction items)
  case Nil
  then show ?case by simp
next
  case (Cons it items)
  from Cons.prems obtain v where
    g: "obj_get_default (entry_labels it) (JStr ''alertname'') (JStr ''unknown'') = Inr v"
    by (auto split: sum.splits)
  from Cons.prems g obtain r where
    p: "eval_policies P (entry_labels it) (entry_annotations it) st = Inr r"
    by (auto split: sum.splits)
  show ?case
  proof (cases r)
    case None
    with Cons.prems g p have rest: "eval_entries P st items = Inr (Some act)" by simp
    from Cons.IH [OF rest] obtain before item after where
      h: "items = before @ item # after"
         "\<forall>it \<in> set before. entry_readable it \<and> (\<forall>q \<in> set P. entry_rejects st it q)"
         "entry_readable item"
         "eval_policies P (entry_labels item) (entry_annotations item) st = Inr (Some act)"
      by blast
    from eval_policies_None p None have "\<forall>q \<in> set P. entry_rejects st it q"
      by (simp add: entry_rejects_def)
    with h entry_get_readable [OF g]
    have "it # items = (it # before) @ item # after \<and>
       (\<forall>it \<in> set (it # before). entry_readable it \<and> (\<forall>q \<in> set P. entry_rejects st it q)) \<and>
       entry_readable item \<and>
       eval_policies P (entry_labels item) (entry_annotations item) st = Inr (Some act)"
      by simp
    then show ?thesis by blast
  next
    case (Some a)
    with Cons.prems g p have "a = act" by simp
    with Some p entry_get_readable [OF g]
    have "it # items = [] @ it # items \<and>
       (\<forall>i \<in> set []. entry_readable i \<and> (\<forall>q \<in> set P. entry_rejects st i q)) \<and>
       entry_readable it \<and>
       eval_policies P (entry_labels it) (entry_annotations it) st = Inr (Some act)"
      by simp
    then show ?thesis by blast
  qed
qed

lemma first_match_result:
  assumes "first_match_at P A before item after ps1 pol ps2"
  shows "evaluate_alert P A = matched_action pol item"
proof -
  let ?st = "a_status A"
  from assms have
    al: "a_alerts A = before @ item # after" and P: "P = ps1 @ pol # ps2"
    and bef: "\<forall>it \<in> set before. entry_readable it \<and> (\<forall>q \<in> set P. entry_rejects ?st it q)"
    and rd: "entry_readable item"
    and rej: "\<forall>q \<in> set ps1. match_condition (p_condition q) (entry_labels item)
                 (entry_annotations item) ?st = Inr False"
    and m: "match_condition (p_condition pol) (entry_labels item)
                 (entry_annotations item) ?st = Inr True"
    by (simp_all add: first_match_at_def entry_rejects_def entry_matches_def)
  from eval_policies_first [OF rej m, of ps2] P
  have ep: "eval_policies P (entry_labels item) (entry_annotations item) ?st =
              matched_action pol item"
    by (simp add: matched_action_def)
  have ne: "matched_action pol item \<noteq> Inr None"
    by (simp add: matched_action_def split: sum.splits)
  from eval_entries_first [OF bef rd ep ne, of after] al P
  show ?thesis by (simp add: evaluate_alert_def)
qed

lemma first_match_lowest_priority:
  assumes "sorted (map p_priority P)"
    and "first_match_at P A before item after ps1 pol ps2"
    and "q \<in> set P" and "entry_matches (a_status A) item q"
  shows "p_priority pol \<le> p_priority q"
proof -
  from assms(2) have P: "P = ps1 @ pol # ps2"
    and rej: "\<forall>q \<in> set ps1. entry_rejects (a_status A) item q"
    by (simp_all add: first_match_at_def)
  from rej assms(4) have "q \<notin> set ps1"
    by (auto simp: entry_rejects_def entry_matches_def)
  with assms(3) P have "q = pol \<or> q \<in> set ps2" by auto
  moreover from assms(1) P have "\<forall>x \<in> set ps2. p_priority pol \<le> p_priority x"
    by (simp add: sorted_append)
  ultimately show ?thesis by auto
qed

lemma evaluate_alert_Some_first_match:
  assumes "evaluate_alert P A = Inr (Some act)"
  shows "\<exists>before item after ps1 pol ps2.
           first_match_at P A before item after ps1 pol ps2 \<and>
           matched_action pol item = Inr (Some act)"
proof -
  from assms have "P \<noteq> []" and "eval_entries P (a_status A) (a_alerts A) = Inr (Some act)"
    by (auto simp: evaluate_alert_def split: if_splits)
  from eval_entries_Some [OF this(2)] obtain before item after where
    h: "a_alerts A = before @ item # after"
       "\<forall>it \<in> set before. entry_readable it \<and> (\<forall>q \<in> set P. entry_rejects (a_status A) it q)"
       "entry_readable item"
       "eval_policies P (entry_labels item) (entry_annotations item) (a_status A) = Inr (Some act)"
    by blast
  from eval_policies_Some [OF h(4)] obtain ps1 pol ps2 where
    g: "P = ps1 @ pol # ps2"
       "\<forall>q \<in> set ps1. match_condition (p_condition q) (entry_labels item)
           (entry_annotations item) (a_status A) = Inr False"
       "match_condition (p_condition pol) (entry_labels item)
           (entry_annotations item) (a_status A) = Inr True"
       "prepare_action pol (entry_labels item) (entry_annotations item) = Inr act"
    by blast
  from h g have "first_match_at P A before item after ps1 pol ps2 \<and>
           matched_action pol item = Inr (Some act)"
    by (simp add: first_match_at_def entry_rejects_def entry_matches_def matched_action_def)
  then show ?thesis by blast
qed

text \<open>
  Claim C1, as amended. With the policies fetched in ascending order of priority,
  \<open>evaluate_alert\<close> scans the alert entries in payload order and, for each entry, the
  policies in fetched order. It returns the action built from the first matching pair: the
  policy is the lowest-priority-number policy that matches the first entry matched by any
  policy (not the lowest-priority-number policy that matches some entry). It returns the
  no-action outcome \<open>None\<close> when the policy set is empty or when every entry is rejected by
  every policy, and in no other case.
\<close>

theorem evaluate_alert_first_match:
  assumes "sorted (map p_priority P)"
  shows
    "(P = [] \<longrightarrow> evaluate_alert P A = Inr None) \<and>
     (no_match P A \<longrightarrow> evaluate_alert P A = Inr None) \<and>
     (evaluate_alert P A = Inr None \<longrightarrow> P = [] \<or> no_match P A) \<and>
     (\<forall>before item after ps1 pol ps2.
        first_match_at P A before item after ps1 pol ps2 \<longrightarrow>
          evaluate_alert P A = matched_action pol item \<and>
          (\<forall>q \<in> set P. entry_matches (a_status A) item q \<longrightarrow> p_priority pol \<le> p_priority q)) \<and>
     (\<forall>act. evaluate_alert P A = Inr (Some act) \<longrightarrow>
        (\<exists>before item after ps1 pol ps2.
           first_match_at P A before item after ps1 pol ps2 \<and>
           matched_action pol item = Inr (Some act)))"
proof (intro conjI allI impI ballI)
  assume "P = []"
  then show "evaluate_alert P A = Inr None"
    by (simp add: evaluate_alert_def)
next
  assume "no_match P A"
  then show "evaluate_alert P A = Inr None"
    using eval_entries_all_rejected [of "a_alerts A" P "a_status A"]
    by (simp add: evaluate_alert_def no_match_def)
next
  assume "evaluate_alert P A = Inr None"
  then show "P = [] \<or> no_match P A"
    using eval_entries_None [of P "a_status A" "a_alerts A"]
    by (auto simp: evaluate_alert_def no_match_def split: if_splits)
next
  fix before item after ps1 pol ps2
  assume "first_match_at P A before item after ps1 pol ps2"
  then show "evaluate_alert P A = matched_action pol item"
    by (rule first_match_result)
next
  fix before item after ps1 pol ps2 q
  assume "first_match_at P A before item after ps1 pol ps2"
    and "q \<in> set P" and "entry_matches (a_status A) item q"
  with assms show "p_priority pol \<le> p_priority q"
    by (rule first_match_lowest_priority)
next
  fix act
  assume "evaluate_alert P A = Inr (Some act)"
  then show "\<exists>before item after ps1 pol ps2.
           first_match_at P A before item after ps1 pol ps2 \<and>
           matched_action pol item = Inr (Some act)"
    by (rule evaluate_alert_Some_first_match)
qed

lemma ex_first_match:
  "first_match_at [ex_policy_b, ex_policy_a] ex_alert_ab [] ex_entry_a [ex_entry_b]
     [ex_policy_b] ex_policy_a []"
  by (simp add: first_match_at_def ex_alert_ab_def ex_entry_a_def ex_entry_b_def
      ex_policy_a_def ex_policy_b_def entry_readable_def entry_rejects_def entry_matches_def
      evaluator_defs py_defs)

theorem evaluate_alert_first_match_witness:
  "sorted (map p_priority [ex_policy_b, ex_policy_a]) \<and>
   first_match_at [ex_policy_b, ex_policy_a] ex_alert_ab [] ex_entry_a [ex_entry_b]
     [ex_policy_b] ex_policy_a [] \<and>
   evaluate_alert [ex_policy_b, ex_policy_a] ex_alert_ab = matched_action ex_policy_a ex_entry_a \<and>
   evaluate_alert [] ex_alert_ab = Inr None"
proof -
  have s: "sorted (map p_priority [ex_policy_b, ex_policy_a])"
    by (simp add: ex_policy_a_def ex_policy_b_def)
  have e: "sorted (map p_priority ([] :: policy list))" by simp
  from evaluate_alert_first_match [OF s, of ex_alert_ab]
       evaluate_alert_first_match [OF e, of ex_alert_ab] ex_first_match s
  show ?thesis by blast
qed

text \<open>
  The claim as worded fails when the entries are matched by different policies: the alert
  with entries A, B and the policies \<open>on-b\<close> (priority 1) and \<open>on-a\<close> (priority 2) yields
  the action of \<open>on-a\<close>, although \<open>on-b\<close> has the lower priority number and matches the
  second entry.
\<close>

theorem evaluate_alert_priority_counterexample:
  "sorted (map p_priority [ex_policy_b, ex_policy_a]) \<and>
   evaluate_alert [ex_policy_b, ex_policy_a] ex_alert_ab =
     Inr (Some (JObj [(''tool'', JStr ''tool_a''), (''policy_name'', JStr ''on-a''),
                      (''alert_labels'', JObj [(''alertname'', JStr ''A'')])])) \<and>
   entry_matches (a_status ex_alert_ab) ex_entry_b ex_policy_b \<and>
   ex_entry_b \<in> set (a_alerts ex_alert_ab) \<and>
   p_priority ex_policy_b < p_priority ex_policy_a"
  by (simp add: ex_alert_ab_def ex_entry_a_def ex_entry_b_def
      ex_policy_a_def ex_policy_b_def entry_matches_def evaluator_defs py_defs)

section \<open>Object identity: what the returned action shares with the policy\<close>

lemma set_item_last:
  "set_item (g @ [ODict items]) (length g) k v = g @ [ODict (AList.update k v items)]"
  by (simp add: set_item_def)

lemma set_item_last_but_one:
  "set_item (g @ [ODict items, ob]) (length g) k v = g @ [ODict (AList.update k v items), ob]"
  by (simp add: set_item_def nth_append list_update_append)

lemma dict_items_last: "dict_items (g @ [ODict items]) (length g) = items"
  by (simp add: dict_items_def)

lemma interpolate_loop_last:
  "interpolate_loop (g @ [ODict ri]) (length g) items labels ann = Inr h' \<Longrightarrow>
   \<exists>ri'. h' = g @ [ODict ri']"
proof (induction items arbitrary: ri)
  case Nil
  then show ?case by auto
next
  case (Cons kv items)
  obtain key val where kv: "kv = (key, val)" by (cases kv)
  from Cons.prems kv obtain v where
    "interpolate_loop (g @ [ODict (AList.update key v ri)]) (length g) items labels ann = Inr h'"
    by (auto simp: set_item_last split: sum.splits)
  then show ?case by (rule Cons.IH)
qed

lemma interpolate_params_h_fresh:
  assumes "interpolate_params_h h params labels ann = Inr (r, h')"
  shows "r = length h \<and> (\<exists>ri. h' = h @ [ODict ri])"
proof (cases params)
  case (VRef p)
  show ?thesis
  proof (cases "p < length h")
    case True
    show ?thesis
    proof (cases "h ! p")
      case (ODict items)
      with assms VRef True have
        "interpolate_loop (h @ [ODict []]) (length h) items labels ann = Inr h'" and "r = length h"
        by (auto simp: interpolate_params_h_def alloc_def split: sum.splits)
      with interpolate_loop_last [of h "[]" items labels ann h'] show ?thesis by simp
    next
      case (OList xs)
      with assms VRef True show ?thesis
        by (simp add: interpolate_params_h_def alloc_def)
    qed
  next
    case False
    with assms VRef show ?thesis
      by (simp add: interpolate_params_h_def alloc_def)
  qed
qed (use assms in \<open>simp_all add: interpolate_params_h_def alloc_def\<close>)

lemma dict_items_last_but_one: "dict_items (g @ [ODict items, ob]) (length g) = items"
  by (simp add: dict_items_def nth_append)

lemma map_of_update_other:
  "k \<noteq> k' \<Longrightarrow> map_of (AList.update k' v items) k = map_of items k"
  by (simp add: update_conv')

text \<open>
  Claim C7, as amended. On a match \<open>evaluate_alert\<close> returns a shallow copy of the policy's
  action template, augmented with \<open>policy_name\<close> and \<open>alert_labels\<close>. The returned dict is a
  new object, and so is its \<open>params\<close> dict when the template has one; these are the only
  objects created, and no object that existed before the call is modified, so the stored
  policy is left as it was. Every other entry of the returned dict holds the very value of
  the template, so a nested dict or list of the template is shared with it. When the
  template has no \<open>params\<close> key the call cannot fail.
\<close>

theorem prepare_action_h_shallow_copy:
  "(prepare_action_h h policy_name action_addr labels ann = Inr (res, h') \<longrightarrow>
      res = VRef (length h) \<and>
      (\<forall>x < length h. h' ! x = h ! x) \<and>
      (\<forall>k. k \<notin> {''policy_name'', ''alert_labels'', ''params''} \<longrightarrow>
           map_of (dict_items h' (length h)) k = map_of (dict_items h action_addr) k) \<and>
      map_of (dict_items h' (length h)) ''policy_name'' = Some (VStr policy_name) \<and>
      map_of (dict_items h' (length h)) ''alert_labels'' = Some labels \<and>
      (if map_of (dict_items h action_addr) ''params'' = None
       then length h' = Suc (length h) \<and> map_of (dict_items h' (length h)) ''params'' = None
       else length h' = Suc (Suc (length h)) \<and>
            map_of (dict_items h' (length h)) ''params'' = Some (VRef (Suc (length h))))) \<and>
   (action_addr < length h \<and> h ! action_addr = ODict items \<and> map_of items ''params'' = None \<longrightarrow>
      prepare_action_h h policy_name action_addr labels ann =
        Inr (VRef (length h),
             h @ [ODict (AList.update ''alert_labels'' labels
                          (AList.update ''policy_name'' (VStr policy_name) items))]))"
proof (intro conjI impI)
  assume ok: "prepare_action_h h policy_name action_addr labels ann = Inr (res, h')"
  define items0 where "items0 = dict_items h action_addr"
  define base where
    "base = AList.update ''alert_labels'' labels
              (AList.update ''policy_name'' (VStr policy_name) items0)"
  have pbase: "map_of base ''params'' = map_of items0 ''params''"
    by (simp add: base_def map_of_update_other)
  from ok have c: "dict_copy h action_addr = Inr (length h, h @ [ODict items0])"
    by (auto simp: prepare_action_h_def dict_copy_def alloc_def items0_def dict_items_def
        split: if_splits pobj.splits sum.splits)
  have h3: "set_item (set_item (h @ [ODict items0]) (length h) ''policy_name'' (VStr policy_name))
              (length h) ''alert_labels'' labels = h @ [ODict base]"
    by (simp add: set_item_last base_def)
  have shape: "res = VRef (length h) \<and>
      (if map_of items0 ''params'' = None then h' = h @ [ODict base]
       else \<exists>ri. h' = h @ [ODict (AList.update ''params'' (VRef (Suc (length h))) base), ODict ri])"
  proof (cases "map_of items0 ''params''")
    case None
    with ok c h3 pbase show ?thesis
      by (simp add: prepare_action_h_def Let_def dict_items_last)
  next
    case (Some params)
    with ok c h3 pbase obtain r h4 where
      ip: "interpolate_params_h (h @ [ODict base]) params labels ann = Inr (r, h4)"
      and res: "res = VRef (length h)" and h': "h' = set_item h4 (length h) ''params'' (VRef r)"
      by (auto simp: prepare_action_h_def Let_def dict_items_last split: sum.splits)
    from interpolate_params_h_fresh [OF ip] obtain ri where
      "r = Suc (length h)" "h4 = h @ [ODict base, ODict ri]"
      by auto
    with h' have "h' = h @ [ODict (AList.update ''params'' (VRef (Suc (length h))) base), ODict ri]"
      by (simp add: set_item_last_but_one)
    with res Some show ?thesis by auto
  qed
  then show "res = VRef (length h)" by simp
  from shape show "\<forall>x < length h. h' ! x = h ! x"
    by (auto simp: nth_append split: if_splits)
  from shape have di: "dict_items h' (length h) = base \<or>
      dict_items h' (length h) = AList.update ''params'' (VRef (Suc (length h))) base"
    by (auto simp: dict_items_last dict_items_last_but_one split: if_splits)
  then show "\<forall>k. k \<notin> {''policy_name'', ''alert_labels'', ''params''} \<longrightarrow>
           map_of (dict_items h' (length h)) k = map_of (dict_items h action_addr) k"
    by (auto simp: base_def items0_def map_of_update_other)
  from di show "map_of (dict_items h' (length h)) ''policy_name'' = Some (VStr policy_name)"
    by (auto simp: base_def update_conv')
  from di show "map_of (dict_items h' (length h)) ''alert_labels'' = Some labels"
    by (auto simp: base_def update_conv')
  show "if map_of (dict_items h action_addr) ''params'' = None
       then length h' = Suc (length h) \<and> map_of (dict_items h' (length h)) ''params'' = None
       else length h' = Suc (Suc (length h)) \<and>
            map_of (dict_items h' (length h)) ''params'' = Some (VRef (Suc (length h)))"
  proof (cases "map_of items0 ''params''")
    case None
    with shape have "h' = h @ [ODict base]" by simp
    with None pbase show ?thesis
      by (simp add: dict_items_last items0_def [symmetric])
  next
    case (Some y)
    with shape obtain ri where
      "h' = h @ [ODict (AList.update ''params'' (VRef (Suc (length h))) base), ODict ri]"
      by auto
    with Some show ?thesis
      by (simp add: dict_items_last_but_one items0_def [symmetric] update_conv')
  qed
next
  assume "action_addr < length h \<and> h ! action_addr = ODict items \<and> map_of items ''params'' = None"
  then show "prepare_action_h h policy_name action_addr labels ann =
        Inr (VRef (length h),
             h @ [ODict (AList.update ''alert_labels'' labels
                          (AList.update ''policy_name'' (VStr policy_name) items))])"
    by (simp add: prepare_action_h_def dict_copy_def alloc_def set_item_last dict_items_last
        map_of_update_other)
qed

lemma ex_prepare_action_h:
  "prepare_action_h ex_heap ''scale-up'' 0 (VRef 3) (VRef 3) =
     Inr (VRef 4,
          ex_heap @
          [ODict [(''tool'', VStr ''scale''), (''params'', VRef 5),
                  (''policy_name'', VStr ''scale-up''), (''alert_labels'', VRef 3)],
           ODict [(''targets'', VRef 2)]])"
  by (simp add: prepare_action_h_def ex_heap_def dict_copy_def alloc_def set_item_def
      dict_items_def interpolate_params_h_def interpolate_value_h_def nth_append)

theorem prepare_action_h_shallow_copy_witness:
  "prepare_action_h ex_heap ''scale-up'' 0 (VRef 3) (VRef 3) =
     Inr (VRef 4,
          ex_heap @
          [ODict [(''tool'', VStr ''scale''), (''params'', VRef 5),
                  (''policy_name'', VStr ''scale-up''), (''alert_labels'', VRef 3)],
           ODict [(''targets'', VRef 2)]]) \<and>
   (ex_heap @
    [ODict [(''tool'', VStr ''scale''), (''params'', VRef 5),
            (''policy_name'', VStr ''scale-up''), (''alert_labels'', VRef 3)],
     ODict [(''targets'', VRef 2)]]) ! 0 = ex_heap ! 0 \<and>
   prepare_action_h [ODict [(''tool'', VStr ''notify'')]] ''n'' 0 VNone VNone =
     Inr (VRef 1,
          [ODict [(''tool'', VStr ''notify'')],
           ODict [(''tool'', VStr ''notify''), (''policy_name'', VStr ''n''),
                  (''alert_labels'', VNone)]])"
proof -
  let ?h' = "ex_heap @
          [ODict [(''tool'', VStr ''scale''), (''params'', VRef 5),
                  (''policy_name'', VStr ''scale-up''), (''alert_labels'', VRef 3)],
           ODict [(''targets'', VRef 2)]]"
  let ?g = "[ODict [(''tool'', VStr ''notify'')]]"
  have a: "prepare_action_h ex_heap ''scale-up'' 0 (VRef 3) (VRef 3) = Inr (VRef 4, ?h')"
    by (rule ex_prepare_action_h)
  from prepare_action_h_shallow_copy
         [of ex_heap "''scale-up''" 0 "VRef 3" "VRef 3" "VRef 4" ?h', THEN conjunct1] a
  have "\<forall>x < length ex_heap. ?h' ! x = ex_heap ! x"
    by blast
  moreover have "0 < length ex_heap"
    by (simp add: ex_heap_def)
  ultimately have b: "?h' ! 0 = ex_heap ! 0"
    by blast
  have c: "0 < length ?g \<and> ?g ! 0 = ODict [(''tool'', VStr ''notify'')] \<and>
           map_of [(''tool'', VStr ''notify'')] ''params'' = None"
    by simp
  from prepare_action_h_shallow_copy
         [of ?g "''n''" 0 VNone VNone VNone ?g "[(''tool'', VStr ''notify'')]", THEN conjunct2] c
  have "prepare_action_h ?g ''n'' 0 VNone VNone =
          Inr (VRef (length ?g),
               ?g @ [ODict (AList.update ''alert_labels'' VNone
                       (AList.update ''policy_name'' (VStr ''n'') [(''tool'', VStr ''notify'')]))])"
    by blast
  then have d: "prepare_action_h ?g ''n'' 0 VNone VNone =
     Inr (VRef 1,
          [ODict [(''tool'', VStr ''notify'')],
           ODict [(''tool'', VStr ''notify''), (''policy_name'', VStr ''n''),
                  (''alert_labels'', VNone)]])"
    by simp
  from a b d show ?thesis by blast
qed

text \<open>
  The claim as worded (a deep copy) fails: for the policy action
  \<open>{"tool": "scale", "params": {"targets": ["web"]}}\<close> the list object at address 2 is a part
  of the stored template and also a part of the returned action.
\<close>

theorem prepare_action_h_deep_copy_counterexample:
  "prepare_action_h ex_heap ''scale-up'' 0 (VRef 3) (VRef 3) =
     Inr (VRef 4,
          ex_heap @
          [ODict [(''tool'', VStr ''scale''), (''params'', VRef 5),
                  (''policy_name'', VStr ''scale-up''), (''alert_labels'', VRef 3)],
           ODict [(''targets'', VRef 2)]]) \<and>
   reach ex_heap (VRef 0) 2 \<and>
   reach (ex_heap @
          [ODict [(''tool'', VStr ''scale''), (''params'', VRef 5),
                  (''policy_name'', VStr ''scale-up''), (''alert_labels'', VRef 3)],
           ODict [(''targets'', VRef 2)]]) (VRef 4) 2"
proof (intro conjI)
  show "prepare_action_h ex_heap ''scale-up'' 0 (VRef 3) (VRef 3) =
     Inr (VRef 4,
          ex_heap @
          [ODict [(''tool'', VStr ''scale''), (''params'', VRef 5),
                  (''policy_name'', VStr ''scale-up''), (''alert_labels'', VRef 3)],
           ODict [(''targets'', VRef 2)]])"
    by (rule ex_prepare_action_h)
next
  have "reach ex_heap (VRef 1) 2"
    by (rule reach_dict [where items = "[(''targets'', VRef 2)]" and k = "''targets''"
          and v = "VRef 2"]) (simp_all add: ex_heap_def reach_self)
  then show "reach ex_heap (VRef 0) 2"
    by (rule reach_dict [where items = "[(''tool'', VStr ''scale''), (''params'', VRef 1)]"
          and k = "''params''" and v = "VRef 1", rotated 3]) (simp_all add: ex_heap_def)
next
  let ?h = "ex_heap @
          [ODict [(''tool'', VStr ''scale''), (''params'', VRef 5),
                  (''policy_name'', VStr ''scale-up''), (''alert_labels'', VRef 3)],
           ODict [(''targets'', VRef 2)]]"
  have "reach ?h (VRef 5) 2"
    by (rule reach_dict [where items = "[(''targets'', VRef 2)]" and k = "''targets''"
          and v = "VRef 2"]) (simp_all add: ex_heap_def reach_self)
  then show "reach ?h (VRef 4) 2"
    by (rule reach_dict [where items = "[(''tool'', VStr ''scale''), (''params'', VRef 5),
                  (''policy_name'', VStr ''scale-up''), (''alert_labels'', VRef 3)]"
          and k = "''params''" and v = "VRef 5", rotated 3]) (simp_all add: ex_heap_def)
qed

section \<open>Properties of the remediation worker\<close>

lemma log_job_queue [simp]: "w_queue (log_job st a t s r) = w_queue st"
  by (simp add: log_job_def)

lemma log_job_invoked [simp]: "w_invoked (log_job st a t s r) = w_invoked st"
  by (simp add: log_job_def)

lemma run_tool_queue:
  "run_tool L H f params st = Inr st' \<Longrightarrow> w_queue st' = w_queue st"
  "run_tool L H f params st = Inl (e, st1) \<Longrightarrow> w_queue st1 = w_queue st"
  by (auto simp: run_tool_def Let_def split: json.splits sum.splits)

lemma process_task_queue:
  assumes "process_task L H task_data st = Inr st'"
  shows "w_queue st' = w_queue st"
proof (cases task_data)
  case (JObj td)
  let ?tool = "dict_get td ''tool''"
  let ?params = "dict_get_default td ''params'' (JObj [])"
  show ?thesis
  proof (cases "tool_map_get ?tool")
    case (Inl e)
    with assms JObj show ?thesis by (simp add: process_task_def Let_def)
  next
    case (Inr found)
    show ?thesis
    proof (cases found)
      case None
      with assms JObj Inr show ?thesis by (auto simp: process_task_def Let_def)
    next
      case (Some f)
      show ?thesis
      proof (cases "run_tool L H f ?params st")
        case (Inl p)
        obtain e st1 where "p = (e, st1)" by (cases p)
        with assms JObj Inr Some Inl run_tool_queue(2) [of L H f ?params st e st1]
        show ?thesis by (auto simp: process_task_def Let_def)
      next
        case (Inr st2)
        with assms JObj \<open>tool_map_get ?tool = Inr found\<close> Some
          run_tool_queue(1) [of L H f ?params st st2]
        show ?thesis by (auto simp: process_task_def Let_def)
      qed
    qed
  qed
qed (use assms in \<open>simp_all add: process_task_def\<close>)

lemma worker_iteration_queue:
  "w_queue (worker_iteration L H st) = butlast (w_queue st)"
proof (cases "w_queue st = []")
  case True
  then show ?thesis by (simp add: worker_iteration_def)
next
  case False
  let ?st1 = "st\<lparr>w_queue := butlast (w_queue st)\<rparr>"
  show ?thesis
  proof (cases "json_loads L (last (w_queue st))")
    case (Inl e)
    with False show ?thesis by (simp add: worker_iteration_def)
  next
    case (Inr task_data)
    show ?thesis
    proof (cases "process_task L H task_data ?st1")
      case (Inl e)
      with False \<open>json_loads L (last (w_queue st)) = Inr task_data\<close> show ?thesis
        by (simp add: worker_iteration_def)
    next
      case (Inr st2)
      from process_task_queue [OF this] False
        \<open>json_loads L (last (w_queue st)) = Inr task_data\<close> Inr
      show ?thesis by (simp add: worker_iteration_def)
    qed
  qed
qed

lemma worker_loop_queue:
  "w_queue (worker_loop L H n st) = take (length (w_queue st) - n) (w_queue st)"
proof (induction n arbitrary: st)
  case 0
  then show ?case by simp
next
  case (Suc n)
  have "w_queue (worker_loop L H (Suc n) st) =
          take (length (butlast (w_queue st)) - n) (butlast (w_queue st))"
    by (simp add: Suc.IH worker_iteration_queue)
  also have "\<dots> = take (length (w_queue st) - Suc n) (w_queue st)"
    by (simp add: butlast_conv_take min_def)
  finally show ?case .
qed

lemma unknown_tool_iteration:
  assumes "w_queue st = q @ [task_json]" and "json_loads L task_json = Inr (JObj td)"
    and "dict_get td ''tool'' = JStr name" and "name \<notin> set tool_names"
  shows "worker_iteration L H st =
           st\<lparr>w_queue := q,
              w_job_log := w_job_log st @
                [\<lparr>j_action = JStr name,
                  j_target = JStr (py_str (py_repr L) (dict_get_default td ''params'' (JObj []))),
                  j_status = JStr ''error'',
                  j_result = JStr (''Unknown tool: '' @ name)\<rparr>]\<rparr>"
  using assms
  by (simp add: worker_iteration_def process_task_def tool_map_get_def log_job_def
      py_str_def Let_def)

lemma malformed_json_iteration:
  assumes "w_queue st = q @ [task_json]" and "json_loads L task_json = Inl e"
  shows "worker_iteration L H st = st\<lparr>w_queue := q\<rparr>"
  using assms by (simp add: worker_iteration_def)

lemma handler_exception_iteration:
  assumes "w_queue st = q @ [task_json]" and "json_loads L task_json = Inr (JObj td)"
    and "dict_get td ''tool'' = JStr name" and "name \<in> set tool_names"
    and "dict_get_default td ''params'' (JObj []) = JObj p" and "H name (JObj p) = Inl e"
  shows "worker_iteration L H st =
           st\<lparr>w_queue := q,
              w_job_log := w_job_log st @
                [\<lparr>j_action = JStr name,
                  j_target = JStr (py_repr L (JObj p)),
                  j_status = JStr ''error'',
                  j_result = JStr (''Error executing '' @ name @ '': '' @ exn_str e)\<rparr>],
              w_invoked := w_invoked st @ [(name, JObj p)]\<rparr>"
  using assms
  by (simp add: worker_iteration_def process_task_def tool_map_get_def log_job_def
      run_tool_def py_str_def Let_def)

text \<open>
  Claim C6. When the worker dequeues an action descriptor whose tool name is not a key of
  the tool table, the iteration appends one job-log row with status \<open>"error"\<close> (result
  \<open>"Unknown tool: <name>"\<close>) and invokes no handler. The loop goes on: a message that
  is not JSON is dropped, a handler exception is recorded as an \<open>"error"\<close> row, and in every
  case each iteration takes exactly one message off a non-empty queue, so after \<open>n\<close>
  iterations the \<open>n\<close> oldest messages have been consumed whatever they contained.
\<close>

theorem worker_unknown_tool_logged_and_loop_continues:
  "(w_queue st = q @ [task_json] \<and> json_loads L task_json = Inr (JObj td) \<and>
    dict_get td ''tool'' = JStr name \<and> name \<notin> set tool_names \<longrightarrow>
      worker_iteration L H st =
        st\<lparr>w_queue := q,
           w_job_log := w_job_log st @
             [\<lparr>j_action = JStr name,
               j_target = JStr (py_str (py_repr L) (dict_get_default td ''params'' (JObj []))),
               j_status = JStr ''error'',
               j_result = JStr (''Unknown tool: '' @ name)\<rparr>]\<rparr> \<and>
      w_invoked (worker_iteration L H st) = w_invoked st) \<and>
   (w_queue st = q @ [task_json] \<and> json_loads L task_json = Inl e \<longrightarrow>
      worker_iteration L H st = st\<lparr>w_queue := q\<rparr>) \<and>
   (w_queue st = q @ [task_json] \<and> json_loads L task_json = Inr (JObj td) \<and>
    dict_get td ''tool'' = JStr name \<and> name \<in> set tool_names \<and>
    dict_get_default td ''params'' (JObj []) = JObj p \<and> H name (JObj p) = Inl e \<longrightarrow>
      worker_iteration L H st =
        st\<lparr>w_queue := q,
           w_job_log := w_job_log st @
             [\<lparr>j_action = JStr name,
               j_target = JStr (py_repr L (JObj p)),
               j_status = JStr ''error'',
               j_result = JStr (''Error executing '' @ name @ '': '' @ exn_str e)\<rparr>],
           w_invoked := w_invoked st @ [(name, JObj p)]\<rparr>) \<and>
   w_queue (worker_iteration L H st) = butlast (w_queue st) \<and>
   w_queue (worker_loop L H n st) = take (length (w_queue st) - n) (w_queue st)"
proof (intro conjI impI)
  assume a: "w_queue st = q @ [task_json] \<and> json_loads L task_json = Inr (JObj td) \<and>
    dict_get td ''tool'' = JStr name \<and> name \<notin> set tool_names"
  then show u: "worker_iteration L H st =
        st\<lparr>w_queue := q,
           w_job_log := w_job_log st @
             [\<lparr>j_action = JStr name,
               j_target = JStr (py_str (py_repr L) (dict_get_default td ''params'' (JObj []))),
               j_status = JStr ''error'',
               j_result = JStr (''Unknown tool: '' @ name)\<rparr>]\<rparr>"
    by (simp add: unknown_tool_iteration)
  show "w_invoked (worker_iteration L H st) = w_invoked st"
    by (simp add: u)
next
  assume "w_queue st = q @ [task_json] \<and> json_loads L task_json = Inl e"
  then show "worker_iteration L H st = st\<lparr>w_queue := q\<rparr>"
    by (simp add: malformed_json_iteration)
next
  assume "w_queue st = q @ [task_json] \<and> json_loads L task_json = Inr (JObj td) \<and>
    dict_get td ''tool'' = JStr name \<and> name \<in> set tool_names \<and>
    dict_get_default td ''params'' (JObj []) = JObj p \<and> H name (JObj p) = Inl e"
  then show "worker_iteration L H st =
        st\<lparr>w_queue := q,
           w_job_log := w_job_log st @
             [\<lparr>j_action = JStr name,
               j_target = JStr (py_repr L (JObj p)),
               j_status = JStr ''error'',
               j_result = JStr (''Error executing '' @ name @ '': '' @ exn_str e)\<rparr>],
           w_invoked := w_invoked st @ [(name, JObj p)]\<rparr>"
    by (simp add: handler_exception_iteration)
next
  show "w_queue (worker_iteration L H st) = butlast (w_queue st)"
    by (rule worker_iteration_queue)
next
  show "w_queue (worker_loop L H n st) = take (length (w_queue st) - n) (w_queue st)"
    by (rule worker_loop_queue)
qed

lemma ex_worker_run:
  "worker_loop py ex_handlers 4 ex_wstate =
     \<lparr>w_queue = [],
      w_job_log =
        [\<lparr>j_action = JStr ''restart_pod'', j_target = JStr ''{'pod_name': 'web-1'}'',
          j_status = JStr ''error'', j_result = JStr ''Unknown tool: restart_pod''\<rparr>,
         \<lparr>j_action = JStr ''mcp_restart_pod'', j_target = JStr ''web-1'',
          j_status = JStr ''success'', j_result = JStr ''{\"status\": \"success\"}''\<rparr>,
         \<lparr>j_action = JStr ''mcp_restart_vm'', j_target = JStr ''{'vm_name': 'db-1'}'',
          j_status = JStr ''error'',
          j_result = JStr ''Error executing mcp_restart_vm: connection refused''\<rparr>],
      w_invoked =
        [(''mcp_restart_pod'', JObj [(''pod_name'', JStr ''web-1'')]),
         (''mcp_restart_vm'', JObj [(''vm_name'', JStr ''db-1'')])]\<rparr>"
  by code_simp

lemma ex_msg_unknown_loads:
  "json_loads py ex_msg_unknown =
     Inr (JObj [(''tool'', JStr ''restart_pod''),
                (''params'', JObj [(''pod_name'', JStr ''web-1'')])])"
  by code_simp

theorem worker_unknown_tool_logged_and_loop_continues_witness:
  "worker_iteration py ex_handlers ex_wstate =
     \<lparr>w_queue = [ex_msg_vm, ex_msg_pod, ex_msg_bad],
      w_job_log =
        [\<lparr>j_action = JStr ''restart_pod'', j_target = JStr ''{'pod_name': 'web-1'}'',
          j_status = JStr ''error'', j_result = JStr ''Unknown tool: restart_pod''\<rparr>],
      w_invoked = []\<rparr> \<and>
   w_queue (worker_loop py ex_handlers 4 ex_wstate) = [] \<and>
   w_job_log (worker_loop py ex_handlers 4 ex_wstate) =
        [\<lparr>j_action = JStr ''restart_pod'', j_target = JStr ''{'pod_name': 'web-1'}'',
          j_status = JStr ''error'', j_result = JStr ''Unknown tool: restart_pod''\<rparr>,
         \<lparr>j_action = JStr ''mcp_restart_pod'', j_target = JStr ''web-1'',
          j_status = JStr ''success'', j_result = JStr ''{\"status\": \"success\"}''\<rparr>,
         \<lparr>j_action = JStr ''mcp_restart_vm'', j_target = JStr ''{'vm_name': 'db-1'}'',
          j_status = JStr ''error'',
          j_result = JStr ''Error executing mcp_restart_vm: connection refused''\<rparr>]"
proof -
  have q: "w_queue ex_wstate = [ex_msg_vm, ex_msg_pod, ex_msg_bad] @ [ex_msg_unknown]"
    by (simp add: ex_wstate_def)
  have n: "''restart_pod'' \<notin> set tool_names"
    by (simp add: tool_names_def)
  have g: "dict_get [(''tool'', JStr ''restart_pod''),
                     (''params'', JObj [(''pod_name'', JStr ''web-1'')])] ''tool'' =
             JStr ''restart_pod''"
    by (simp add: dict_get_def)
  have r: "py_str (py_repr py)
             (dict_get_default [(''tool'', JStr ''restart_pod''),
                     (''params'', JObj [(''pod_name'', JStr ''web-1'')])] ''params'' (JObj [])) =
           ''{'pod_name': 'web-1'}''"
    by code_simp
  note t = worker_unknown_tool_logged_and_loop_continues
      [where st = ex_wstate and q = "[ex_msg_vm, ex_msg_pod, ex_msg_bad]"
         and task_json = ex_msg_unknown and L = py and H = ex_handlers
         and td = "[(''tool'', JStr ''restart_pod''),
                    (''params'', JObj [(''pod_name'', JStr ''web-1'')])]"
         and name = "''restart_pod''" and n = 4]
  from t q n g ex_msg_unknown_loads have
    "worker_iteration py ex_handlers ex_wstate =
       ex_wstate\<lparr>w_queue := [ex_msg_vm, ex_msg_pod, ex_msg_bad],
           w_job_log := w_job_log ex_wstate @
             [\<lparr>j_action = JStr ''restart_pod'',
               j_target = JStr (py_str (py_repr py)
                  (dict_get_default [(''tool'', JStr ''restart_pod''),
                     (''params'', JObj [(''pod_name'', JStr ''web-1'')])] ''params'' (JObj []))),
               j_status = JStr ''error'',
               j_result = JStr (''Unknown tool: '' @ ''restart_pod'')\<rparr>]\<rparr>"
    by blast
  then have a: "worker_iteration py ex_handlers ex_wstate =
     \<lparr>w_queue = [ex_msg_vm, ex_msg_pod, ex_msg_bad],
      w_job_log =
        [\<lparr>j_action = JStr ''restart_pod'', j_target = JStr ''{'pod_name': 'web-1'}'',
          j_status = JStr ''error'', j_result = JStr ''Unknown tool: restart_pod''\<rparr>],
      w_invoked = []\<rparr>"
    by (simp add: r ex_wstate_def)
  from t have "w_queue (worker_loop py ex_handlers 4 ex_wstate) =
                 take (length (w_queue ex_wstate) - 4) (w_queue ex_wstate)"
    by blast
  then have b: "w_queue (worker_loop py ex_handlers 4 ex_wstate) = []"
    by (simp add: ex_wstate_def)
  have c: "w_job_log (worker_loop py ex_handlers 4 ex_wstate) =
        [\<lparr>j_action = JStr ''restart_pod'', j_target = JStr ''{'pod_name': 'web-1'}'',
          j_status = JStr ''error'', j_result = JStr ''Unknown tool: restart_pod''\<rparr>,
         \<lparr>j_action = JStr ''mcp_restart_pod'', j_target = JStr ''web-1'',
          j_status = JStr ''success'', j_result = JStr ''{\"status\": \"success\"}''\<rparr>,
         \<lparr>j_action = JStr ''mcp_restart_vm'', j_target = JStr ''{'vm_name': 'db-1'}'',
          j_status = JStr ''error'',
          j_result = JStr ''Error executing mcp_restart_vm: connection refused''\<rparr>]"
    by (simp add: ex_worker_run)
  from a b c show ?thesis by blast
qed

section \<open>Properties of the command router\<close>

lemmas outcome_defs = returns_def falls_through_def raises_def return_dumps_def record_call_def

lemma in_strs_cases:
  "in_strs x names \<longleftrightarrow> (\<exists>s \<in> set names. x = JStr s)"
  by (cases x) (auto simp: in_strs_def)

lemma route_vmware_gap:
  assumes "in_strs (dict_get cmd ''action'') [''get'', ''status'', ''info'']"
    and "in_strs (dict_get cmd ''resource'') [''vms'', ''vm'']"
  shows "route_vmware L E cmd st =
           (case get_esxi_mcp_client E st of
              (Inl e, st1) \<Rightarrow> (Inl e, st1)
            | (Inr u, st1) \<Rightarrow> (Inr (Some vm_gap_message), st1))"
proof -
  from assms(1) have "dict_get cmd ''action'' \<noteq> JStr ''list''"
    by (auto simp: in_strs_cases)
  with assms show ?thesis
    by (simp add: route_vmware_def Let_def outcome_defs split: prod.splits sum.splits)
qed

text \<open>
  Claim C8, as amended. For a command with domain \<open>"vmware"\<close>, action \<open>"get"\<close>, \<open>"status"\<close>
  or \<open>"info"\<close> and resource \<open>"vm"\<close> or \<open>"vms"\<close> the router first obtains the ESXi client.
  With a cached client it returns the capability-gap message, which lists the supported
  operations, and contacts no backend. Without a cached client it sends the liveness probe:
  when the probe succeeds it returns the capability-gap message, when the probe fails it
  returns \<open>"Error executing command: ESXi MCP server not accessible"\<close>. In no case is a
  tool call sent to the backend.
\<close>

theorem vmware_vm_info_gap:
  assumes "dict_get cmd ''domain'' = JStr ''vmware''"
    and "in_strs (dict_get cmd ''action'') [''get'', ''status'', ''info'']"
    and "in_strs (dict_get cmd ''resource'') [''vms'', ''vm'']"
  shows
    "(esxi_client st \<longrightarrow> route_infra_command L E cmd st = (Inr vm_gap_message, st)) \<and>
     (\<not> esxi_client st \<and> esxi_start E \<longrightarrow>
        route_infra_command L E cmd st =
          (Inr vm_gap_message,
           st\<lparr>calls := calls st @ [Probe ''vmware''], esxi_client := True\<rparr>)) \<and>
     (\<not> esxi_client st \<and> \<not> esxi_start E \<longrightarrow>
        route_infra_command L E cmd st =
          (Inr ''Error executing command: ESXi MCP server not accessible'',
           st\<lparr>calls := calls st @ [Probe ''vmware'']\<rparr>)) \<and>
     tool_calls_of (snd (route_infra_command L E cmd st)) = tool_calls_of st \<and>
     py_in ''Available operations: list, create, clone, power_on, power_off, delete''
       vm_gap_message"
proof -
  have body: "route_body L E cmd st =
           (case get_esxi_mcp_client E st of
              (Inl e, st1) \<Rightarrow> (Inl e, st1)
            | (Inr u, st1) \<Rightarrow> (Inr vm_gap_message, st1))"
    using assms(1) route_vmware_gap [OF assms(2,3), of L E st]
    by (simp add: route_body_def Let_def split: prod.splits sum.splits)
  have a: "esxi_client st \<longrightarrow> route_infra_command L E cmd st = (Inr vm_gap_message, st)"
    by (simp add: route_infra_command_def body get_esxi_mcp_client_def)
  have b: "\<not> esxi_client st \<and> esxi_start E \<longrightarrow>
        route_infra_command L E cmd st =
          (Inr vm_gap_message,
           st\<lparr>calls := calls st @ [Probe ''vmware''], esxi_client := True\<rparr>)"
    by (simp add: route_infra_command_def body get_esxi_mcp_client_def Let_def)
  have c: "\<not> esxi_client st \<and> \<not> esxi_start E \<longrightarrow>
        route_infra_command L E cmd st =
          (Inr ''Error executing command: ESXi MCP server not accessible'',
           st\<lparr>calls := calls st @ [Probe ''vmware'']\<rparr>)"
    by (simp add: route_infra_command_def body get_esxi_mcp_client_def Let_def)
  have d: "tool_calls_of (snd (route_infra_command L E cmd st)) = tool_calls_of st"
    by (simp add: route_infra_command_def body get_esxi_mcp_client_def Let_def
        tool_calls_of_def)
  have e: "py_in ''Available operations: list, create, clone, power_on, power_off, delete''
       vm_gap_message"
    by (simp add: vm_gap_message_def starts_with_def)
  from a b c d e show ?thesis by blast
qed

lemma ex_vm_get_down:
  "route_infra_command py ex_env_down ex_cmd_vm_get fresh_rstate =
   (Inr ''Error executing command: ESXi MCP server not accessible'',
    \<lparr>prom_client = False, graf_client = False, esxi_client = False,
     calls = [Probe ''vmware'']\<rparr>)"
  by code_simp

theorem vmware_vm_info_gap_witness:
  "route_infra_command py ex_env ex_cmd_vm_get fresh_rstate =
     (Inr vm_gap_message,
      \<lparr>prom_client = False, graf_client = False, esxi_client = True,
       calls = [Probe ''vmware'']\<rparr>) \<and>
   route_infra_command py ex_env ex_cmd_vm_get
       \<lparr>prom_client = False, graf_client = False, esxi_client = True, calls = []\<rparr> =
     (Inr vm_gap_message,
      \<lparr>prom_client = False, graf_client = False, esxi_client = True, calls = []\<rparr>) \<and>
   tool_calls_of (snd (route_infra_command py ex_env_down ex_cmd_vm_get fresh_rstate)) = []"
proof -
  have d: "dict_get ex_cmd_vm_get ''domain'' = JStr ''vmware''"
    and a: "in_strs (dict_get ex_cmd_vm_get ''action'') [''get'', ''status'', ''info'']"
    and r: "in_strs (dict_get ex_cmd_vm_get ''resource'') [''vms'', ''vm'']"
    by (simp_all add: ex_cmd_vm_get_def dict_get_def in_strs_def)
  note t = vmware_vm_info_gap [OF d a r]
  have u: "\<not> esxi_client fresh_rstate \<and> esxi_start ex_env"
    by (simp add: fresh_rstate_def ex_env_def)
  from t [of fresh_rstate py ex_env] u
  have "route_infra_command py ex_env ex_cmd_vm_get fresh_rstate =
          (Inr vm_gap_message,
           fresh_rstate\<lparr>calls := calls fresh_rstate @ [Probe ''vmware''], esxi_client := True\<rparr>)"
    by blast
  then have 1: "route_infra_command py ex_env ex_cmd_vm_get fresh_rstate =
     (Inr vm_gap_message,
      \<lparr>prom_client = False, graf_client = False, esxi_client = True,
       calls = [Probe ''vmware'']\<rparr>)"
    by (simp add: fresh_rstate_def)
  let ?c = "\<lparr>prom_client = False, graf_client = False, esxi_client = True, calls = []\<rparr>"
  have "esxi_client ?c" by simp
  with t [of ?c py ex_env]
  have 2: "route_infra_command py ex_env ex_cmd_vm_get ?c = (Inr vm_gap_message, ?c)"
    by blast
  from t [of fresh_rstate py ex_env_down]
  have "tool_calls_of (snd (route_infra_command py ex_env_down ex_cmd_vm_get fresh_rstate)) =
          tool_calls_of fresh_rstate"
    by blast
  then have 3: "tool_calls_of (snd (route_infra_command py ex_env_down ex_cmd_vm_get fresh_rstate)) = []"
    by (simp add: tool_calls_of_def fresh_rstate_def)
  from 1 2 3 show ?thesis by blast
qed

text \<open>
  The claim as worded fails when no ESXi client is cached and the server is down: the
  router sends the liveness probe to the backend and returns the connectivity error, not the
  capability-gap message.
\<close>

theorem vmware_vm_info_unavailable_counterexample:
  "route_infra_command py ex_env_down ex_cmd_vm_get fresh_rstate =
     (Inr ''Error executing command: ESXi MCP server not accessible'',
      \<lparr>prom_client = False, graf_client = False, esxi_client = False,
       calls = [Probe ''vmware'']\<rparr>) \<and>
   ''Error executing command: ESXi MCP server not accessible'' \<noteq> vm_gap_message \<and>
   calls fresh_rstate = []"
proof (intro conjI)
  show "route_infra_command py ex_env_down ex_cmd_vm_get fresh_rstate =
     (Inr ''Error executing command: ESXi MCP server not accessible'',
      \<lparr>prom_client = False, graf_client = False, esxi_client = False,
       calls = [Probe ''vmware'']\<rparr>)"
    by (rule ex_vm_get_down)
  show "''Error executing command: ESXi MCP server not accessible'' \<noteq> vm_gap_message"
    by (simp add: vm_gap_message_def)
  show "calls fresh_rstate = []"
    by (simp add: fresh_rstate_def)
qed



















subsection \<open>Grafana: addressing a dashboard by uid or by name\<close>

lemma alnum_not_newline: "is_alnum c \<Longrightarrow> c \<noteq> CHR 0x0A"
  by (auto simp: is_alnum_def)

lemma alnum_looks_like_uid:
  assumes "n \<noteq> []" and "list_all is_alnum n"
  shows "looks_like_uid n"
proof -
  from assms have "is_alnum (last n)"
    by (simp add: list_all_iff)
  then have "last n \<noteq> CHR 0x0A"
    by (rule alnum_not_newline)
  with assms show ?thesis
    by (simp add: looks_like_uid_def)
qed

lemma route_grafana_get:
  assumes "dict_get cmd ''domain'' = JStr ''grafana''" and "dict_get cmd ''action'' = JStr ''get''"
    and "in_strs (dict_get cmd ''resource'') [''dashboards'', ''dashboard'']"
    and "dict_get cmd ''name'' = JStr n" and "graf_client st"
  shows "route_body L E cmd st =
           (case (if looks_like_uid n then grafana_get_by_uid L E n st
                  else grafana_get_by_name L E n st) of
              (Inl e, st') \<Rightarrow> (Inl e, st')
            | (Inr (Some s), st') \<Rightarrow> (Inr s, st')
            | (Inr None, st') \<Rightarrow> (Inr (''Command not supported: '' @ py_repr L (JObj cmd)), st'))"
  using assms
  by (simp add: route_body_def route_grafana_def get_grafana_mcp_client_def Let_def)

lemma grafana_get_by_uid_calls:
  "calls (snd (grafana_get_by_uid L E n st)) =
     calls st @ [ToolCall ''grafana'' ''get_dashboard'' (JObj [(''uid'', JStr n)])]"
  by (simp add: grafana_get_by_uid_def Let_def outcome_defs split: sum.splits)

lemma route_calls_of_body:
  "calls (snd (route_infra_command L E cmd st)) = calls (snd (route_body L E cmd st))"
  by (simp add: route_infra_command_def split: prod.splits sum.splits)

lemma grafana_uid_fetched_directly:
  assumes "dict_get cmd ''domain'' = JStr ''grafana''" and "dict_get cmd ''action'' = JStr ''get''"
    and "in_strs (dict_get cmd ''resource'') [''dashboards'', ''dashboard'']"
    and "dict_get cmd ''name'' = JStr n" and "graf_client st"
    and "looks_like_uid n"
  shows "calls (snd (route_infra_command L E cmd st)) =
           calls st @ [ToolCall ''grafana'' ''get_dashboard'' (JObj [(''uid'', JStr n)])]"
proof -
  have "calls (snd (route_body L E cmd st)) = calls (snd (grafana_get_by_uid L E n st))"
    using assms(6)
    by (simp add: route_grafana_get [OF assms(1-5)] split: prod.splits sum.splits option.splits)
  then show ?thesis
    by (simp add: route_calls_of_body grafana_get_by_uid_calls)
qed

lemma grafana_name_found:
  assumes "graf_execute E ''list_dashboards'' (JObj []) = Inr list_result"
    and "\<not> is_server_error (py_repr L) list_result"
    and "mcp_text list_result = Some (JStr txt)" and "json_loads L txt = Inr (JList ds)"
    and "find_dashboard n ds = Inr (Some (JObj d))" and "d \<noteq> []"
  shows "calls (snd (grafana_get_by_name L E n st)) =
           calls st @ [ToolCall ''grafana'' ''list_dashboards'' (JObj []),
                       ToolCall ''grafana'' ''get_dashboard'' (JObj [(''uid'', dict_get d ''uid'')])]"
  using assms
  by (simp add: grafana_get_by_name_def search_dashboards_def loads_value_def py_iter_def
      obj_get_def obj_get_default_def dict_get_def dict_get_default_def Let_def outcome_defs
      split: sum.splits)

lemma grafana_name_not_found:
  assumes "graf_execute E ''list_dashboards'' (JObj []) = Inr list_result"
    and "\<not> is_server_error (py_repr L) list_result"
    and "mcp_text list_result = Some (JStr txt)" and "json_loads L txt = Inr (JList ds)"
    and "find_dashboard n ds = Inr None"
  shows "grafana_get_by_name L E n st =
           (Inr (Some (''Error: No dashboard found with title containing '' @ [CHR 0x27] @ n
                       @ [CHR 0x27])),
            st\<lparr>calls := calls st @ [ToolCall ''grafana'' ''list_dashboards'' (JObj [])]\<rparr>)"
  using assms
  by (simp add: grafana_get_by_name_def search_dashboards_def loads_value_def py_iter_def
      Let_def outcome_defs)

lemma find_dashboard_first:
  "find_dashboard n ds = Inr (Some dsh) \<Longrightarrow>
   \<exists>before after items title. ds = before @ dsh # after \<and> dsh = JObj items \<and>
     dict_get_default items ''title'' (JStr []) = JStr title \<and>
     py_in (py_lower n) (py_lower title) \<and>
     (\<forall>b \<in> set before. \<forall>bi t. b = JObj bi \<and> dict_get_default bi ''title'' (JStr []) = JStr t
          \<longrightarrow> \<not> py_in (py_lower n) (py_lower t))"
proof (induction ds)
  case Nil
  then show ?case by simp
next
  case (Cons x ds)
  show ?case
  proof (cases "find_dashboard n ds = Inr (Some dsh) \<and> find_dashboard n (x # ds) = find_dashboard n ds
                  \<and> (\<forall>bi t. x = JObj bi \<and> dict_get_default bi ''title'' (JStr []) = JStr t
                        \<longrightarrow> \<not> py_in (py_lower n) (py_lower t))")
    case True
    with Cons.IH obtain before after items title where
      h: "ds = before @ dsh # after" "dsh = JObj items"
         "dict_get_default items ''title'' (JStr []) = JStr title"
         "py_in (py_lower n) (py_lower title)"
         "\<forall>b \<in> set before. \<forall>bi t. b = JObj bi \<and> dict_get_default bi ''title'' (JStr []) = JStr t
            \<longrightarrow> \<not> py_in (py_lower n) (py_lower t)"
      by blast
    from h True have "x # ds = (x # before) @ dsh # after \<and> dsh = JObj items \<and>
       dict_get_default items ''title'' (JStr []) = JStr title \<and>
       py_in (py_lower n) (py_lower title) \<and>
       (\<forall>b \<in> set (x # before). \<forall>bi t. b = JObj bi \<and> dict_get_default bi ''title'' (JStr []) = JStr t
            \<longrightarrow> \<not> py_in (py_lower n) (py_lower t))"
      by auto
    then show ?thesis by blast
  next
    case False
    with Cons.prems obtain items title where
      "x = JObj items" "dict_get_default items ''title'' (JStr []) = JStr title"
      "py_in (py_lower n) (py_lower title)" "dsh = x"
      by (auto split: json.splits if_splits)
    then have "x # ds = [] @ dsh # ds \<and> dsh = JObj items \<and>
       dict_get_default items ''title'' (JStr []) = JStr title \<and>
       py_in (py_lower n) (py_lower title) \<and>
       (\<forall>b \<in> set []. \<forall>bi t. b = JObj bi \<and> dict_get_default bi ''title'' (JStr []) = JStr t
            \<longrightarrow> \<not> py_in (py_lower n) (py_lower t))"
      by simp
    then show ?thesis by blast
  qed
qed

lemma ex_dashboard_by_name:
  "route_infra_command py ex_env (ex_cmd_dashboard ''node exporter'') fresh_rstate =
     (Inr ''{\"result\": {\"uid\": \"abc123\"}}'',
      \<lparr>prom_client = False, graf_client = True, esxi_client = False,
       calls = [Probe ''grafana'',
                ToolCall ''grafana'' ''list_dashboards'' (JObj []),
                ToolCall ''grafana'' ''get_dashboard'' (JObj [(''uid'', JStr ''abc123'')])]\<rparr>)"
  by code_simp

lemma ex_dashboard_not_found:
  "route_infra_command py ex_env (ex_cmd_dashboard ''no such'') fresh_rstate =
     (Inr (''Error: No dashboard found with title containing 'no such'' @ [CHR 0x27]),
      \<lparr>prom_client = False, graf_client = True, esxi_client = False,
       calls = [Probe ''grafana'', ToolCall ''grafana'' ''list_dashboards'' (JObj [])]\<rparr>)"
  by code_simp

text \<open>
  Claim C4 at the name \<open>"abc\n"\<close>, which does not consist solely of alphanumeric
  characters: \<open>$\<close> of the pattern matches before the final line feed, so the name is
  treated as a uid and fetched directly, without the two-step resolution.
\<close>

theorem grafana_uid_trailing_newline:
  "route_infra_command py ex_env (ex_cmd_dashboard (''abc'' @ [CHR 0x0A])) fresh_rstate =
     (Inr (''{\"result\": {\"uid\": \"abc'' @ [CHR 0x5C] @ ''n\"}}''),
      \<lparr>prom_client = False, graf_client = True, esxi_client = False,
       calls = [Probe ''grafana'',
                ToolCall ''grafana'' ''get_dashboard''
                  (JObj [(''uid'', JStr (''abc'' @ [CHR 0x0A]))])]\<rparr>) \<and>
   \<not> list_all is_alnum (''abc'' @ [CHR 0x0A]) \<and>
   looks_like_uid (''abc'' @ [CHR 0x0A])"
proof (intro conjI)
  show "route_infra_command py ex_env (ex_cmd_dashboard (''abc'' @ [CHR 0x0A])) fresh_rstate =
     (Inr (''{\"result\": {\"uid\": \"abc'' @ [CHR 0x5C] @ ''n\"}}''),
      \<lparr>prom_client = False, graf_client = True, esxi_client = False,
       calls = [Probe ''grafana'',
                ToolCall ''grafana'' ''get_dashboard''
                  (JObj [(''uid'', JStr (''abc'' @ [CHR 0x0A]))])]\<rparr>)"
    by code_simp
  show "\<not> list_all is_alnum (''abc'' @ [CHR 0x0A])"
    by (simp add: is_alnum_def)
  show "looks_like_uid (''abc'' @ [CHR 0x0A])"
    by (simp add: looks_like_uid_def is_alnum_def)
qed

section \<open>The Verify stage on an encoded command descriptor\<close>

lemma ex_bare_content:
  "tool_calls_json py ex_descriptor =
     ''{\"tool_calls\": [{\"name\": \"infra_command\", \"arguments\": {\"domain\": \"kubernetes\", \"action\": \"describe\", \"resource\": \"pod\", \"name\": \"web-1\"}}]}''"
  by code_simp

lemma ex_bare_code_match:
  "code_match patterns
     ''{\"tool_calls\": [{\"name\": \"infra_command\", \"arguments\": {\"domain\": \"kubernetes\", \"action\": \"describe\", \"resource\": \"pod\", \"name\": \"web-1\"}}]}'' =
   Some ''{\"tool_calls\": [{\"name\": \"infra_command\", \"arguments\": {\"domain\": \"kubernetes\", \"action\": \"describe\", \"resource\": \"pod\", \"name\": \"web-1\"}}]''"
  by code_simp

lemma ex_bare_loads:
  "json_loads py
     ''{\"tool_calls\": [{\"name\": \"infra_command\", \"arguments\": {\"domain\": \"kubernetes\", \"action\": \"describe\", \"resource\": \"pod\", \"name\": \"web-1\"}}]'' =
   Inl (JSONDecodeError ''Expecting value'')"
  by code_simp

text \<open>
  The bare encoding of the descriptor \<open>{domain: "kubernetes", action:
  "describe", resource: "pod", name: "web-1"}\<close>: the third pattern matches and its group
  ends at the first \<open>]\<close>, without the closing brace of the object; \<open>json.loads\<close> rejects
  the text and the node returns the state unchanged, so no tool call is forwarded.
\<close>

lemma verification_node_bare_tool_calls:
  "code_match patterns (tool_calls_json py ex_descriptor) =
     Some (butlast (tool_calls_json py ex_descriptor)) \<and>
   last (tool_calls_json py ex_descriptor) = CHR ''}'' \<and>
   extract_tool_calls py (butlast (tool_calls_json py ex_descriptor)) =
     Inl (JSONDecodeError ''Expecting value'') \<and>
   verification_node py (ai_state (tool_calls_json py ex_descriptor)) =
     ai_state (tool_calls_json py ex_descriptor)"
proof -
  let ?c = "tool_calls_json py ex_descriptor"
  have m: "code_match patterns ?c = Some (butlast ?c)"
    by (simp add: ex_bare_content ex_bare_code_match)
  have l: "last ?c = CHR ''}''"
    by (simp add: ex_bare_content)
  have "json_loads py (butlast ?c) = Inl (JSONDecodeError ''Expecting value'')"
    using ex_bare_loads by (simp add: ex_bare_content)
  then have e: "extract_tool_calls py (butlast ?c) = Inl (JSONDecodeError ''Expecting value'')"
    by (simp add: extract_tool_calls_def)
  have "verification_node py (ai_state ?c) = ai_state ?c"
    by (simp add: verification_node_def ai_state_def m e)
  with m l e show ?thesis by blast
qed

text \<open>
  The same descriptor inside a fenced block is extracted, and the arguments of the
  forwarded call decode to the descriptor.
\<close>

lemma verification_node_fenced_tool_calls:
  "verification_node py (ai_state (fenced (tool_calls_json py ex_descriptor))) =
     (ai_state (fenced (tool_calls_json py ex_descriptor)))
       \<lparr>messages :=
          [AIMessage []
             [\<lparr>tc_id = ''call_1'', tc_name = JStr ''infra_command'',
               tc_arguments = json_dumps py (JObj ex_descriptor)\<rparr>]]\<rparr> \<and>
   json_loads py (json_dumps py (JObj ex_descriptor)) = Inr (JObj ex_descriptor)"
  by code_simp









subsection \<open>The bare \<open>tool_calls\<close> pattern never captures a JSON object\<close>

lemma rx_match_ws_step:
  "rx_match (Ws # r) (drop pos content) pos gs ge = Some g \<Longrightarrow>
   \<exists>pos' \<ge> pos. rx_match r (drop pos' content) pos' gs ge = Some g"
proof (induction "drop pos content" arbitrary: pos)
  case Nil
  then have "rx_match r (drop pos content) pos gs ge = Some g"
    by (metis rx_match.simps(3))
  then show ?case by blast
next
  case (Cons c cs)
  from Cons.hyps(2) have cs: "cs = drop (Suc pos) content"
    by (metis drop_Suc tl_drop list.sel(3))
  show ?case
  proof (cases "is_space c \<and> rx_match (Ws # r) cs (Suc pos) gs ge = Some g")
    case True
    with Cons.hyps(1) [OF cs] cs obtain pos' where
      "pos' \<ge> Suc pos" "rx_match r (drop pos' content) pos' gs ge = Some g"
      by blast
    then show ?thesis
      by (metis Suc_leD)
  next
    case False
    with Cons.prems Cons.hyps(2) [symmetric]
    have "rx_match r (drop pos content) pos gs ge = Some g"
      by (auto split: if_splits option.splits)
    then show ?thesis by blast
  qed
qed

lemma rx_match_lazy_step:
  "rx_match (Lazy # r) (drop pos content) pos gs ge = Some g \<Longrightarrow>
   \<exists>pos' \<ge> pos. rx_match r (drop pos' content) pos' gs ge = Some g"
proof (induction "drop pos content" arbitrary: pos)
  case Nil
  then have "rx_match r (drop pos content) pos gs ge = Some g"
    by (metis rx_match.simps(5))
  then show ?case by blast
next
  case (Cons c cs)
  from Cons.hyps(2) have cs: "cs = drop (Suc pos) content"
    by (metis drop_Suc tl_drop list.sel(3))
  show ?case
  proof (cases "rx_match r (drop pos content) pos gs ge = Some g")
    case True
    then show ?thesis by blast
  next
    case False
    with Cons.prems Cons.hyps(2) [symmetric]
    have "rx_match (Lazy # r) cs (Suc pos) gs ge = Some g"
      by (auto split: option.splits)
    with Cons.hyps(1) [OF cs] cs obtain pos' where
      "pos' \<ge> Suc pos" "rx_match r (drop pos' content) pos' gs ge = Some g"
      by blast
    then show ?thesis
      by (metis Suc_leD)
  qed
qed

lemma rx_match_lit_step:
  "rx_match (Lit s # r) (drop pos content) pos gs ge = Some g \<Longrightarrow>
   \<exists>pos' \<ge> pos. rx_match r (drop pos' content) pos' gs ge = Some g"
proof -
  assume "rx_match (Lit s # r) (drop pos content) pos gs ge = Some g"
  then have "rx_match r (drop (pos + length s) content) (pos + length s) gs ge = Some g"
    by (simp add: add.commute split: if_splits)
  then show ?thesis
    by (metis le_add1)
qed

lemma rx_match_plain_prefix:
  "list_all plain_item pre \<Longrightarrow>
   rx_match (pre @ r) (drop pos content) pos gs ge = Some g \<Longrightarrow>
   \<exists>pos' \<ge> pos. rx_match r (drop pos' content) pos' gs ge = Some g"
proof (induction pre arbitrary: pos)
  case Nil
  then show ?case by auto
next
  case (Cons x pre)
  from Cons.prems(1) have px: "plain_item x" and ppre: "list_all plain_item pre"
    by simp_all
  have "\<exists>p1 \<ge> pos. rx_match (pre @ r) (drop p1 content) p1 gs ge = Some g"
  proof (cases x)
    case (Lit s)
    with Cons.prems(2) show ?thesis
      using rx_match_lit_step [of s "pre @ r" pos content gs ge g] by simp
  next
    case Ws
    with Cons.prems(2) show ?thesis
      using rx_match_ws_step [of "pre @ r" pos content gs ge g] by simp
  next
    case Lazy
    with Cons.prems(2) show ?thesis
      using rx_match_lazy_step [of "pre @ r" pos content gs ge g] by simp
  qed (use px in simp_all)
  then obtain p1 where p1: "p1 \<ge> pos" "rx_match (pre @ r) (drop p1 content) p1 gs ge = Some g"
    by blast
  from Cons.IH [OF ppre p1(2)] obtain pos' where
    "pos' \<ge> p1" "rx_match r (drop pos' content) pos' gs ge = Some g"
    by blast
  with p1(1) show ?case
    by (metis le_trans)
qed

lemma rx_search_start:
  "rx_search r (drop pos content) pos = Some g \<Longrightarrow>
   \<exists>p \<ge> pos. rx_match r (drop p content) p 0 0 = Some g"
proof (induction "drop pos content" arbitrary: pos)
  case Nil
  then have "rx_match r (drop pos content) pos 0 0 = Some g"
    by (metis rx_search.simps(1))
  then show ?case by blast
next
  case (Cons c cs)
  from Cons.hyps(2) have cs: "cs = drop (Suc pos) content"
    by (metis drop_Suc tl_drop list.sel(3))
  show ?case
  proof (cases "rx_match r (drop pos content) pos 0 0 = Some g")
    case True
    then show ?thesis by blast
  next
    case False
    with Cons.prems Cons.hyps(2) [symmetric]
    have "rx_search r cs (Suc pos) = Some g"
      by (auto split: option.splits)
    with Cons.hyps(1) [OF cs] cs obtain p where
      "p \<ge> Suc pos" "rx_match r (drop p content) p 0 0 = Some g"
      by blast
    then show ?thesis
      by (metis Suc_leD)
  qed
qed

text \<open>
  Whatever the response is, the text captured by the third pattern ends with \<open>]\<close>: the
  closing brace of a bare \<open>tool_calls\<close> object is never part of it.
\<close>

lemma tool_calls_pattern_group:
  assumes "search_group tool_calls_pattern content = Some grp"
  shows "grp \<noteq> [] \<and> last grp = CHR '']''"
proof -
  from assms obtain gs ge where
    s: "rx_search tool_calls_pattern (drop 0 content) 0 = Some (gs, ge)"
    and grp: "grp = take (ge - gs) (drop gs content)"
    by (auto simp: search_group_def split: option.splits)
  from rx_search_start [OF s] obtain p where
    "rx_match tool_calls_pattern (drop p content) p 0 0 = Some (gs, ge)"
    by blast
  then have m: "rx_match
      ([Lit ''{'', Lazy, Lit ''\"tool_calls\"'', Ws, Lit '':'', Ws, Lit ''['', Lazy] @
       [Lit '']'', Close]) (drop p content) p p 0 = Some (gs, ge)"
    by (simp add: tool_calls_pattern_def)
  have "list_all plain_item
          [Lit ''{'', Lazy, Lit ''\"tool_calls\"'', Ws, Lit '':'', Ws, Lit ''['', Lazy]"
    by simp
  from rx_match_plain_prefix [OF this m] obtain q where
    q: "q \<ge> p" "rx_match [Lit '']'', Close] (drop q content) q p 0 = Some (gs, ge)"
    by blast
  from q(2) have st: "starts_with '']'' (drop q content)" and g: "gs = p" "ge = Suc q"
    by (auto split: if_splits)
  from st have t: "take (Suc 0) (drop q content) = '']''"
    by (simp add: starts_with_def)
  then have "drop q content \<noteq> []"
    by auto
  then have lt: "q < length content"
    by simp
  with t have at: "content ! q = CHR '']''"
    by (simp add: take_Suc_conv_app_nth)
  from grp g have grp': "grp = take (Suc q - p) (drop p content)" by simp
  with q(1) lt have len: "length grp = Suc q - p"
    by simp
  with q(1) have ne: "grp \<noteq> []" by auto
  have "last grp = grp ! (q - p)"
    using ne len q(1) by (simp add: last_conv_nth)
  also have "\<dots> = content ! q"
    using grp' q(1) lt by simp
  finally show ?thesis using ne at by simp
qed


subsection \<open>The kubernetes branch on descriptors built by \<open>infra_command\<close>\<close>

text \<open>
  Two slips of the kubernetes branch, on examples. Called through \<open>infra_command\<close>
  without a namespace, the router receives \<open>namespace = None\<close> under the key, which is not
  the default, and forwards it. An action whose branch ends in \<open>client.call_method\<close>
  forwards nothing.
\<close>

lemma infra_command_absent_namespace:
  "calls (snd (infra_command py ex_env (JStr ''kubernetes'') (JStr ''list'') (JStr ''pods'')
                 JNull JNull JNull fresh_rstate)) =
     [Probe ''kubernetes'',
      ToolCall ''kubernetes'' ''kubectl_get''
        (JObj [(''resourceType'', JStr ''pods''), (''namespace'', JNull)])]"
  by code_simp

lemma kubernetes_describe_attribute_error:
  "route_infra_command py ex_env
     [(''domain'', JStr ''kubernetes''), (''action'', JStr ''describe''),
      (''resource'', JStr ''pod''), (''name'', JStr ''web-1'')] fresh_rstate =
   (Inr ''Error executing command: AsyncClient object has no attribute call_method'',
    \<lparr>prom_client = False, graf_client = False, esxi_client = False,
     calls = [Probe ''kubernetes'']\<rparr>)"
  by code_simp


end
